theory Spec2Isabelle
  imports Complex_Main "HOL-Library.AList"
begin

section \<open>JavaScript values as the form engine sees them\<close>

text \<open>
  The form engine of \<^verbatim>\<open>src/composables/useForm.ts\<close> stores field values of type
  \<^verbatim>\<open>any\<close>. The embedding keeps the distinctions the code itself makes: \<^verbatim>\<open>typeof\<close>,
  \<^verbatim>\<open>Array.isArray\<close>, strict equality with \<^verbatim>\<open>undefined\<close>, \<^verbatim>\<open>null\<close> and \<^verbatim>\<open>''\<close>, and
  truthiness. A number is a double: for the comparisons the code performs a double is
  its real value, an infinity or NaN. A string is a list of code units (those below 256
  are representable as \<^typ>\<open>char\<close>). \<open>VObj\<close> stands for any other object (a \<^verbatim>\<open>Date\<close>, say):
  the code only ever tests it for truthiness and for its type. \<open>VBuiltin name\<close> is
  what a plain object answers when it is read at a key it inherits from
  \<^verbatim>\<open>Object.prototype\<close>: the built-in function of that name, and for \<^verbatim>\<open>__proto__\<close> the
  prototype object itself. Both are objects: truthy, neither a number nor a string nor
  an array.
\<close>

datatype jsnum = NaN | NegInfinity | Finite real | PosInfinity

datatype jsval =
    VUndefined
  | VNull
  | VBool bool
  | VNum jsnum
  | VStr string
  | VArr "jsval list"
  | VObj nat
  | VBuiltin string

text \<open>\<^verbatim>\<open>a < b\<close> on two numbers; every comparison with NaN is false.\<close>

fun num_lt :: "jsnum \<Rightarrow> jsnum \<Rightarrow> bool" where
  "num_lt NaN _ = False"
| "num_lt _ NaN = False"
| "num_lt (Finite x) (Finite y) = (x < y)"
| "num_lt NegInfinity NegInfinity = False"
| "num_lt NegInfinity _ = True"
| "num_lt _ NegInfinity = False"
| "num_lt PosInfinity _ = False"
| "num_lt _ PosInfinity = True"

text \<open>ToBoolean: what \<^verbatim>\<open>if (v)\<close>, \<^verbatim>\<open>!v\<close> and \<^verbatim>\<open>v && ...\<close> test.\<close>

fun truthy :: "jsval \<Rightarrow> bool" where
  "truthy VUndefined = False"
| "truthy VNull = False"
| "truthy (VBool b) = b"
| "truthy (VNum NaN) = False"
| "truthy (VNum (Finite x)) = (x \<noteq> 0)"
| "truthy (VNum _) = True"
| "truthy (VStr s) = (s \<noteq> [])"
| "truthy (VArr _) = True"
| "truthy (VObj _) = True"
| "truthy (VBuiltin _) = True"

text \<open>
  ToString, which \<^verbatim>\<open>RegExp.prototype.test\<close> applies to its argument. On a string it is
  the identity; on any other value it is the JavaScript runtime's conversion, which is
  not part of the repository and is taken as the parameter \<open>ts\<close>.
\<close>

fun ToString :: "(jsval \<Rightarrow> string) \<Rightarrow> jsval \<Rightarrow> string" where
  "ToString ts (VStr s) = s"
| "ToString ts v = ts v"

text \<open>
  A plain object \<^verbatim>\<open>Record<string, T>\<close>: its own properties in insertion order
  (the rule that keys which are array indices are enumerated first is not modelled).
  \<^verbatim>\<open>Object.entries\<close>, \<^verbatim>\<open>Object.keys\<close> and the spread \<^verbatim>\<open>{ ...o }\<close> see the own properties
  only; \<^verbatim>\<open>delete\<close> removes an own property (\<^const>\<open>AList.delete\<close>).
\<close>

type_synonym 'a obj = "(string \<times> 'a) list"

text \<open>
  A read \<^verbatim>\<open>o[name]\<close> and the test \<^verbatim>\<open>name in o\<close> go on to the prototype when \<open>o\<close> has no
  own property \<open>name\<close>. The objects of the engine are made by object literals, so their
  prototype is \<^verbatim>\<open>Object.prototype\<close>, whose properties (ECMAScript, with its Annex B) are
  the following: eleven built-in functions and the accessor \<^verbatim>\<open>__proto__\<close>.
\<close>

definition object_prototype_names :: "string list" where
  "object_prototype_names =
     [''constructor'', ''__defineGetter__'', ''__defineSetter__'', ''hasOwnProperty'',
      ''__lookupGetter__'', ''__lookupSetter__'', ''isPrototypeOf'', ''propertyIsEnumerable'',
      ''toString'', ''valueOf'', ''__proto__'', ''toLocaleString'']"

text \<open>
  What a read of \<^verbatim>\<open>o[name]\<close> finds: an own property, a member of \<^verbatim>\<open>Object.prototype\<close>
  (an object, hence truthy), or nothing (\<^verbatim>\<open>undefined\<close>).
\<close>

datatype 'a property = Own 'a | Inherited | Absent

definition property :: "'a obj \<Rightarrow> string \<Rightarrow> 'a property" where
  "property obj name =
     (case map_of obj name of
        Some x \<Rightarrow> Own x
      | None \<Rightarrow> if name \<in> set object_prototype_names then Inherited else Absent)"

text \<open>\<^verbatim>\<open>name in o\<close>\<close>

definition has_property :: "'a obj \<Rightarrow> string \<Rightarrow> bool" where
  "has_property obj name = (case property obj name of Absent \<Rightarrow> False | _ \<Rightarrow> True)"

text \<open>
  An assignment \<^verbatim>\<open>o[name] = x\<close> replaces an own property in place or appends a new one
  (\<^const>\<open>AList.update\<close>), also when \<open>name\<close> is the name of an inherited function. The one
  exception is the key \<^verbatim>\<open>__proto__\<close> on an object that has no own property of that
  name: the assignment then runs the setter of \<^verbatim>\<open>Object.prototype\<close>, which stores no
  property; it makes \<open>x\<close> the prototype of \<open>o\<close> when \<open>x\<close> is an object or \<^verbatim>\<open>null\<close> and
  does nothing otherwise.
\<close>

definition sets_prototype :: "'a obj \<Rightarrow> string \<Rightarrow> bool" where
  "sets_prototype obj name = (name = ''__proto__'' \<and> map_of obj name = None)"

fun accepted_as_prototype :: "jsval \<Rightarrow> bool" where
  "accepted_as_prototype VNull = True"
| "accepted_as_prototype (VArr _) = True"
| "accepted_as_prototype (VObj _) = True"
| "accepted_as_prototype (VBuiltin _) = True"
| "accepted_as_prototype _ = False"

text \<open>\<^verbatim>\<open>(values.value as any)[name]\<close>: the value read, \<^verbatim>\<open>undefined\<close> when there is none.\<close>

definition lookup :: "jsval obj \<Rightarrow> string \<Rightarrow> jsval" where
  "lookup vs name =
     (case property vs name of
        Own v \<Rightarrow> v
      | Inherited \<Rightarrow> VBuiltin name
      | Absent \<Rightarrow> VUndefined)"

section \<open>Thrown values\<close>

text \<open>
  What a \<^verbatim>\<open>catch (err: any)\<close> of the engine can receive. The handlers read
  \<^verbatim>\<open>err.issues\<close>, \<^verbatim>\<open>err.errors\<close>, \<^verbatim>\<open>err.message\<close> and \<^verbatim>\<open>err.inner\<close>; reading a
  property of \<^verbatim>\<open>null\<close> or \<^verbatim>\<open>undefined\<close> throws a TypeError in turn, any other thrown
  value answers each read with the property or \<^verbatim>\<open>undefined\<close>.
\<close>

datatype path_seg = Key string | Index nat

record issue =
  issue_path :: "path_seg list"
  issue_message :: string

record inner_error =
  inner_path :: "string option"
  inner_message :: string

record js_error =
  err_issues :: "issue list option"
  err_errors :: "issue list option"
  err_message :: "string option"
  err_inner :: "inner_error list option"

datatype thrown = Nullish | ErrorObj js_error

definition TypeError :: "string \<Rightarrow> thrown" where
  "TypeError msg =
     ErrorObj \<lparr>err_issues = None, err_errors = None, err_message = Some msg, err_inner = None\<rparr>"

section \<open>Validation rules\<close>

text \<open>
  \<^verbatim>\<open>interface ValidationRule { type; value?: any; message: string }\<close>. The payload
  \<^verbatim>\<open>value\<close> is absent, a number (min, max, minLength, maxLength), a regular expression
  (pattern) or a function (custom). A regular expression is the predicate its
  \<^verbatim>\<open>test\<close> computes on a string (no \<^verbatim>\<open>g\<close> or \<^verbatim>\<open>y\<close> flag, so no \<^verbatim>\<open>lastIndex\<close> state);
  a function may throw.
\<close>

datatype rule_type =
  Required | Email | MinRule | MaxRule | MinLength | MaxLength | Pattern | Custom

datatype rule_value =
    NoValue
  | NumValue jsnum
  | RegExpValue "string \<Rightarrow> bool"
  | FnValue "jsval \<Rightarrow> thrown + jsval"

record ValidationRule =
  rule_type :: rule_type
  rule_value :: rule_value
  message :: string

text \<open>
  The literal \<^verbatim>\<open>/^[^\s@]+@[^\s@]+\.[^\s@]+$/\<close> of the email rule. \<^verbatim>\<open>\s\<close> is the
  white space and line terminator class; below 256 these are the code units listed.
  Since the first class excludes \<^verbatim>\<open>@\<close>, a match splits the string at its first
  \<^verbatim>\<open>@\<close>; the part after it must hold no \<^verbatim>\<open>@\<close> and a dot that is neither its first nor
  its last character.
\<close>

definition is_space :: "char \<Rightarrow> bool" where
  "is_space c = (c \<in> set [CHR 0x09, CHR 0x0A, CHR 0x0B, CHR 0x0C, CHR 0x0D, CHR 0x20, CHR 0xA0])"

definition email_char :: "char \<Rightarrow> bool" where
  "email_char c = (\<not> is_space c \<and> c \<noteq> CHR ''@'')"

definition email_regex_test :: "string \<Rightarrow> bool" where
  "email_regex_test s =
     (let local_part = takeWhile (\<lambda>c. c \<noteq> CHR ''@'') s;
          rest = dropWhile (\<lambda>c. c \<noteq> CHR ''@'') s;
          domain_part = tl rest
      in local_part \<noteq> [] \<and> list_all email_char local_part \<and> rest \<noteq> [] \<and>
         list_all email_char domain_part \<and> CHR ''.'' \<in> set (butlast (tl domain_part)))"

text \<open>
  \<^verbatim>\<open>value < rule.value\<close> with a number on the left: the right operand goes through
  ToNumber, which gives NaN for \<^verbatim>\<open>undefined\<close>, for a function and for a regular
  expression, and then the comparison is false.
\<close>

fun lt_rule_value :: "jsnum \<Rightarrow> rule_value \<Rightarrow> bool" where
  "lt_rule_value n (NumValue m) = num_lt n m"
| "lt_rule_value n _ = False"

fun gt_rule_value :: "jsnum \<Rightarrow> rule_value \<Rightarrow> bool" where
  "gt_rule_value n (NumValue m) = num_lt m n"
| "gt_rule_value n _ = False"

text \<open>\<^verbatim>\<open>rule.value.test(value)\<close>: only a regular expression has a \<^verbatim>\<open>test\<close> method.\<close>

fun call_test :: "(jsval \<Rightarrow> string) \<Rightarrow> rule_value \<Rightarrow> jsval \<Rightarrow> thrown + bool" where
  "call_test ts (RegExpValue re) v = Inr (re (ToString ts v))"
| "call_test ts NoValue v = Inl (TypeError ''Cannot read properties of undefined'')"
| "call_test ts _ v = Inl (TypeError ''rule.value.test is not a function'')"

text \<open>\<^verbatim>\<open>rule.value(value)\<close>: only a function can be called.\<close>

fun call_custom :: "rule_value \<Rightarrow> jsval \<Rightarrow> thrown + jsval" where
  "call_custom (FnValue f) v = f v"
| "call_custom _ v = Inl (TypeError ''rule.value is not a function'')"

text \<open>
  One turn of the loop of \<^verbatim>\<open>validateValue\<close>, the \<^verbatim>\<open>switch (rule.type)\<close>:
  \<open>Inr True\<close> where the source returns \<^verbatim>\<open>rule.message\<close>, \<open>Inr False\<close> where it reaches
  \<^verbatim>\<open>break\<close>, \<open>Inl\<close> where the turn throws.
\<close>

definition rule_fails :: "(jsval \<Rightarrow> string) \<Rightarrow> jsval \<Rightarrow> ValidationRule \<Rightarrow> thrown + bool" where
  "rule_fails ts v rule =
     (case rule_type rule of
        Required \<Rightarrow>
          Inr (v = VUndefined \<or> v = VNull \<or> v = VStr [] \<or> v = VArr [])
      | Email \<Rightarrow>
          Inr (truthy v \<and> \<not> email_regex_test (ToString ts v))
      | MinRule \<Rightarrow>
          (case v of VNum n \<Rightarrow> Inr (lt_rule_value n (rule_value rule)) | _ \<Rightarrow> Inr False)
      | MaxRule \<Rightarrow>
          (case v of VNum n \<Rightarrow> Inr (gt_rule_value n (rule_value rule)) | _ \<Rightarrow> Inr False)
      | MinLength \<Rightarrow>
          (case v of
             VStr s \<Rightarrow> Inr (lt_rule_value (Finite (real (length s))) (rule_value rule))
           | _ \<Rightarrow> Inr False)
      | MaxLength \<Rightarrow>
          (case v of
             VStr s \<Rightarrow> Inr (gt_rule_value (Finite (real (length s))) (rule_value rule))
           | _ \<Rightarrow> Inr False)
      | Pattern \<Rightarrow>
          (if truthy v
           then (case call_test ts (rule_value rule) v of
                   Inl e \<Rightarrow> Inl e
                 | Inr matched \<Rightarrow> Inr (\<not> matched))
           else Inr False)
      | Custom \<Rightarrow>
          (if truthy v
           then (case call_custom (rule_value rule) v of
                   Inl e \<Rightarrow> Inl e
                 | Inr r \<Rightarrow> Inr (\<not> truthy r))
           else Inr False))"

text \<open>
  \<^verbatim>\<open>function validateValue(value, rules): string | undefined\<close>: the \<^verbatim>\<open>for ... of\<close> loop
  over the rules. \<open>Inr (Some m)\<close> is \<^verbatim>\<open>return rule.message\<close>, \<open>Inr None\<close> is the final
  \<^verbatim>\<open>return undefined\<close>, \<open>Inl\<close> is an exception leaving the function.
\<close>

fun validateValue ::
  "(jsval \<Rightarrow> string) \<Rightarrow> jsval \<Rightarrow> ValidationRule list \<Rightarrow> thrown + string option" where
  "validateValue ts v [] = Inr None"
| "validateValue ts v (rule # rules) =
     (case rule_fails ts v rule of
        Inl e \<Rightarrow> Inl e
      | Inr True \<Rightarrow> Inr (Some (message rule))
      | Inr False \<Rightarrow> validateValue ts v rules)"

section \<open>The state of one engine\<close>

text \<open>
  \<^verbatim>\<open>interface FieldMeta\<close>; the optional \<^verbatim>\<open>error\<close> is \<open>None\<close> when absent.
\<close>

record FieldMeta =
  touched :: bool
  dirty :: bool
  error :: "string option"
  meta_valid :: bool
  pending :: bool

text \<open>
  The object literal \<^verbatim>\<open>{ touched: t, dirty: false, valid: true, pending: false }\<close> that
  the engine writes wherever it creates a FieldMeta.
\<close>

definition new_meta :: "bool \<Rightarrow> FieldMeta" where
  "new_meta t = \<lparr>touched = t, dirty = False, error = None, meta_valid = True, pending = False\<rparr>"

text \<open>
  The values objects live in a store, because the code copies them
  (\<^verbatim>\<open>{ ...initialValues }\<close>) and the caller keeps a reference to its own object: an
  address names an object, \<open>heap\<close> gives its properties, \<open>next_addr\<close> is the first address
  not allocated yet. \<open>values_ref\<close> is the address the ref \<^verbatim>\<open>values\<close> holds.
  The other refs (\<^verbatim>\<open>errors\<close>, \<^verbatim>\<open>fieldsMeta\<close>, \<^verbatim>\<open>isSubmitting\<close>, \<^verbatim>\<open>isValidating\<close>,
  \<^verbatim>\<open>submitCount\<close>, \<^verbatim>\<open>fieldRules\<close>) are held by value. \<open>effects\<close> records what the
  engine does to the outside: the two calls on a submit event and \<^verbatim>\<open>console.error\<close>.

  Every operation runs to completion before the next starts: the engine is
  single-threaded and an \<^verbatim>\<open>await\<close> is modelled as the call it waits for.

  \<open>prototypeWrites\<close> lists, in order, the writes of the engine that did not land on an
  own property of the object addressed: an assignment at the key \<^verbatim>\<open>__proto__\<close> that
  replaced the prototype of the values object, of \<^verbatim>\<open>errors.value\<close>, of
  \<^verbatim>\<open>fieldsMeta.value\<close> or of \<^verbatim>\<open>fieldRules.value\<close>, and an assignment
  \<^verbatim>\<open>fieldsMeta.value[name].key = v\<close> where \<^verbatim>\<open>fieldsMeta.value[name]\<close> is a member of
  \<^verbatim>\<open>Object.prototype\<close> (for \<open>name\<close> = \<^verbatim>\<open>__proto__\<close> the write goes to \<^verbatim>\<open>Object.prototype\<close>
  itself and is inherited by every object from then on). Property reads are modelled
  for objects that inherit from \<^verbatim>\<open>Object.prototype\<close> as the runtime created it. So the
  embedding describes the engine up to and including the first such write, and the
  results about an operation are stated for states in which the list is empty.
\<close>

type_synonym addr = nat

datatype effect = PreventDefault | StopPropagation | ConsoleError thrown

datatype prototype_write =
    ValuesPrototype jsval
  | ErrorsPrototype "string list"
  | FieldsMetaPrototype FieldMeta
  | FieldRulesPrototype "ValidationRule list"
  | MemberProperty string string jsval

record form_state =
  heap :: "addr \<Rightarrow> jsval obj"
  next_addr :: addr
  values_ref :: addr
  errorBag :: "string list obj"
  fieldsMeta :: "FieldMeta obj"
  isSubmitting :: bool
  isValidating :: bool
  submitCount :: nat
  fieldRules :: "ValidationRule list obj"
  effects :: "effect list"
  prototypeWrites :: "prototype_write list"

text \<open>\<^verbatim>\<open>values.value\<close>: the object the ref currently points to.\<close>

definition values_value :: "form_state \<Rightarrow> jsval obj" where
  "values_value s = heap s (values_ref s)"

text \<open>Allocation of a new object with the given properties (an object literal).\<close>

definition alloc :: "jsval obj \<Rightarrow> form_state \<Rightarrow> addr \<times> form_state" where
  "alloc props s =
     (next_addr s, s\<lparr>heap := (heap s)(next_addr s := props), next_addr := Suc (next_addr s)\<rparr>)"

text \<open>
  The four assignments \<^verbatim>\<open>values.value[name] = v\<close>, \<^verbatim>\<open>errors.value[name] = msgs\<close>,
  \<^verbatim>\<open>fieldsMeta.value[name] = meta\<close> and \<^verbatim>\<open>fieldRules.value[name] = rules\<close>. An array
  and an object literal are objects, so at the key \<^verbatim>\<open>__proto__\<close> the last three always
  replace the prototype.
\<close>

definition write_value :: "string \<Rightarrow> jsval \<Rightarrow> form_state \<Rightarrow> form_state" where
  "write_value name v s =
     (if sets_prototype (values_value s) name
      then (if accepted_as_prototype v
            then s\<lparr>prototypeWrites := prototypeWrites s @ [ValuesPrototype v]\<rparr>
            else s)
      else s\<lparr>heap := (heap s)(values_ref s := AList.update name v (values_value s))\<rparr>)"

definition write_error :: "string \<Rightarrow> string list \<Rightarrow> form_state \<Rightarrow> form_state" where
  "write_error name msgs s =
     (if sets_prototype (errorBag s) name
      then s\<lparr>prototypeWrites := prototypeWrites s @ [ErrorsPrototype msgs]\<rparr>
      else s\<lparr>errorBag := AList.update name msgs (errorBag s)\<rparr>)"

definition write_meta :: "string \<Rightarrow> FieldMeta \<Rightarrow> form_state \<Rightarrow> form_state" where
  "write_meta name m s =
     (if sets_prototype (fieldsMeta s) name
      then s\<lparr>prototypeWrites := prototypeWrites s @ [FieldsMetaPrototype m]\<rparr>
      else s\<lparr>fieldsMeta := AList.update name m (fieldsMeta s)\<rparr>)"

definition write_rules :: "string \<Rightarrow> ValidationRule list \<Rightarrow> form_state \<Rightarrow> form_state" where
  "write_rules name rs s =
     (if sets_prototype (fieldRules s) name
      then s\<lparr>prototypeWrites := prototypeWrites s @ [FieldRulesPrototype rs]\<rparr>
      else s\<lparr>fieldRules := AList.update name rs (fieldRules s)\<rparr>)"

text \<open>
  The schema object a caller hands over. The code tells three kinds apart by probing
  for the property \<^verbatim>\<open>_def\<close> (Zod) and \<^verbatim>\<open>__isYupSchema__\<close> (Yup). \<open>ZodSchema\<close> is an
  object that has \<^verbatim>\<open>_def\<close> and a method \<^verbatim>\<open>parseAsync\<close>, as the schemas of Zod do;
  \<open>YupSchema\<close> one that has \<^verbatim>\<open>__isYupSchema__\<close>, no \<^verbatim>\<open>_def\<close>, and the methods
  \<^verbatim>\<open>validateAt\<close> and \<^verbatim>\<open>validate\<close>, as those of Yup do. The methods belong to the
  external libraries: each is a function of the value mapping that resolves (\<open>None\<close>)
  or rejects with a thrown value. \<open>RulesSchema\<close> is a plain object, given by its own
  properties, each of which holds a rule list: a rules mapping, if it has no field of
  either name.
\<close>

record yup_schema =
  validateAt :: "string \<Rightarrow> jsval obj \<Rightarrow> thrown option"
  yup_validate :: "jsval obj \<Rightarrow> thrown option"

datatype schema =
    ZodSchema "jsval obj \<Rightarrow> thrown option"
  | YupSchema yup_schema
  | RulesSchema "ValidationRule list obj"

text \<open>
  A caller's callback (\<^verbatim>\<open>onValid\<close>, \<^verbatim>\<open>onSubmit\<close>): it is handed the values and the
  submission context and may change the form through them before it returns or fails.
\<close>

type_synonym callback = "form_state \<Rightarrow> (thrown + unit) \<times> form_state"

text \<open>
  The constants a \<^verbatim>\<open>useForm\<close> call closes over: \<^verbatim>\<open>initialValues\<close> (the caller's object),
  \<^verbatim>\<open>activeSchema\<close> and \<^verbatim>\<open>onSubmit\<close>.
\<close>

record engine =
  initialValues :: addr
  activeSchema :: "schema option"
  onSubmit :: "callback option"

text \<open>
  \<^verbatim>\<open>const isZodSchema = activeSchema && typeof activeSchema === 'object' && '_def' in activeSchema\<close>
  and its Yup counterpart, computed once at construction. On a plain object the
  operator \<^verbatim>\<open>in\<close> finds a field of that name.
\<close>

definition isZodSchema :: "engine \<Rightarrow> bool" where
  "isZodSchema eng =
     (case activeSchema eng of
        None \<Rightarrow> False
      | Some (ZodSchema _) \<Rightarrow> True
      | Some (YupSchema _) \<Rightarrow> False
      | Some (RulesSchema rs) \<Rightarrow> has_property rs ''_def'')"

definition isYupSchema :: "engine \<Rightarrow> bool" where
  "isYupSchema eng =
     (case activeSchema eng of
        None \<Rightarrow> False
      | Some (ZodSchema _) \<Rightarrow> False
      | Some (YupSchema _) \<Rightarrow> True
      | Some (RulesSchema rs) \<Rightarrow> has_property rs ''__isYupSchema__'')"

text \<open>
  The calls \<^verbatim>\<open>activeSchema.parseAsync(values.value)\<close>,
  \<^verbatim>\<open>activeSchema.validateAt(name, values.value)\<close> and
  \<^verbatim>\<open>activeSchema.validate(values.value, ...)\<close>, each inside a \<^verbatim>\<open>try\<close>. On an object
  without the method (a plain object that only carries the marker: what it holds
  under the method's name, if anything, is a rule list) the call throws a TypeError,
  which the \<^verbatim>\<open>catch\<close> receives like a rejection.
\<close>

fun call_parseAsync :: "schema option \<Rightarrow> jsval obj \<Rightarrow> thrown option" where
  "call_parseAsync (Some (ZodSchema parseAsync)) vs = parseAsync vs"
| "call_parseAsync _ vs = Some (TypeError ''activeSchema.parseAsync is not a function'')"

fun call_validateAt :: "schema option \<Rightarrow> string \<Rightarrow> jsval obj \<Rightarrow> thrown option" where
  "call_validateAt (Some (YupSchema yup)) name vs = validateAt yup name vs"
| "call_validateAt _ name vs = Some (TypeError ''activeSchema.validateAt is not a function'')"

fun call_validate :: "schema option \<Rightarrow> jsval obj \<Rightarrow> thrown option" where
  "call_validate (Some (YupSchema yup)) vs = yup_validate yup vs"
| "call_validate _ vs = Some (TypeError ''activeSchema.validate is not a function'')"

text \<open>The result objects \<^verbatim>\<open>{ valid, errors }\<close> of \<^verbatim>\<open>validateField\<close> and \<^verbatim>\<open>validate\<close>.\<close>

record 'e result =
  valid :: bool
  errors :: 'e

section \<open>Field mutation operations\<close>

text \<open>
  The statements
  \<^verbatim>\<open>if (!fieldsMeta.value[name]) fieldsMeta.value[name] = { touched: t, dirty: false, valid: true, pending: false }\<close>
  and \<^verbatim>\<open>fieldsMeta.value[name].key = v\<close>, which \<^verbatim>\<open>setFieldValue\<close> and \<^verbatim>\<open>onBlur\<close> run
  one after the other. A stored FieldMeta and a member of \<^verbatim>\<open>Object.prototype\<close> are
  objects, hence truthy, so the literal is written only where the read finds nothing;
  the second statement then changes the literal just stored (\<open>upd\<close> is its effect on a
  FieldMeta). On a stored FieldMeta it changes that one, and where the read finds a
  member of \<^verbatim>\<open>Object.prototype\<close> it adds the property \<open>key\<close> to that member.
\<close>

definition mark_meta ::
  "string \<Rightarrow> bool \<Rightarrow> string \<Rightarrow> jsval \<Rightarrow> (FieldMeta \<Rightarrow> FieldMeta) \<Rightarrow> form_state \<Rightarrow> form_state" where
  "mark_meta name t key v upd s =
     (case property (fieldsMeta s) name of
        Absent \<Rightarrow> write_meta name (upd (new_meta t)) s
      | Own m \<Rightarrow> s\<lparr>fieldsMeta := AList.update name (upd m) (fieldsMeta s)\<rparr>
      | Inherited \<Rightarrow> s\<lparr>prototypeWrites := prototypeWrites s @ [MemberProperty name key v]\<rparr>)"

definition setFieldValue :: "string \<Rightarrow> jsval \<Rightarrow> form_state \<Rightarrow> form_state" where
  "setFieldValue name v s =
     mark_meta name False ''dirty'' (VBool True) (\<lambda>m. m\<lparr>dirty := True\<rparr>) (write_value name v s)"

definition setValues :: "jsval obj \<Rightarrow> form_state \<Rightarrow> form_state" where
  "setValues entries s = foldl (\<lambda>s (key, v). setFieldValue key v s) s entries"

definition setFieldError :: "string \<Rightarrow> string \<Rightarrow> form_state \<Rightarrow> form_state" where
  "setFieldError name err s = write_error name [err] s"

definition setErrors :: "string obj \<Rightarrow> form_state \<Rightarrow> form_state" where
  "setErrors entries s = foldl (\<lambda>s (key, err). setFieldError key err s) s entries"

text \<open>\<^verbatim>\<open>{ ...errors.value, ...serverErrors }\<close>: later properties overwrite earlier ones.\<close>

definition setServerErrors :: "string list obj \<Rightarrow> form_state \<Rightarrow> form_state" where
  "setServerErrors serverErrors s =
     s\<lparr>errorBag := foldl (\<lambda>bag (key, msgs). AList.update key msgs bag) (errorBag s) serverErrors\<rparr>"

definition setFieldTouched :: "string \<Rightarrow> bool \<Rightarrow> form_state \<Rightarrow> form_state" where
  "setFieldTouched name isTouched s =
     (case property (fieldsMeta s) name of
        Absent \<Rightarrow> write_meta name (new_meta isTouched) s
      | Own m \<Rightarrow> s\<lparr>fieldsMeta := AList.update name (m\<lparr>touched := isTouched\<rparr>) (fieldsMeta s)\<rparr>
      | Inherited \<Rightarrow>
          s\<lparr>prototypeWrites :=
               prototypeWrites s @ [MemberProperty name ''touched'' (VBool isTouched)]\<rparr>)"

definition setTouched :: "bool obj \<Rightarrow> form_state \<Rightarrow> form_state" where
  "setTouched entries s = foldl (\<lambda>s (key, isTouched). setFieldTouched key isTouched s) s entries"

text \<open>
  \<^verbatim>\<open>errors.value[name]?.[0]\<close>: \<open>None\<close> is \<^verbatim>\<open>undefined\<close>. Where the read finds a member
  of \<^verbatim>\<open>Object.prototype\<close>, that object has no property \<^verbatim>\<open>0\<close> and the result is
  \<^verbatim>\<open>undefined\<close> as well.
\<close>

definition first_message :: "string list \<Rightarrow> string option" where
  "first_message msgs = (case msgs of [] \<Rightarrow> None | m # _ \<Rightarrow> Some m)"

definition getFieldError :: "string \<Rightarrow> form_state \<Rightarrow> string option" where
  "getFieldError name s =
     (case map_of (errorBag s) name of None \<Rightarrow> None | Some msgs \<Rightarrow> first_message msgs)"

text \<open>
  \<^verbatim>\<open>getFieldMeta\<close> writes \<^verbatim>\<open>error\<close> and \<^verbatim>\<open>valid\<close> into the object that
  \<^verbatim>\<open>fieldsMeta.value[name]\<close> gives and returns that object: the stored FieldMeta, or
  the member of \<^verbatim>\<open>Object.prototype\<close>. \<^verbatim>\<open>!error\<close> holds for \<^verbatim>\<open>undefined\<close> and for the
  empty string.
\<close>

definition getFieldMeta :: "string \<Rightarrow> form_state \<Rightarrow> FieldMeta property \<times> form_state" where
  "getFieldMeta name s =
     (let err = getFieldError name s;
          ok = (err = None \<or> err = Some []);
          refresh = (\<lambda>m. m\<lparr>error := err, meta_valid := ok\<rparr>)
      in case property (fieldsMeta s) name of
           Absent \<Rightarrow>
             (Own (refresh (new_meta False)), write_meta name (refresh (new_meta False)) s)
         | Own m \<Rightarrow>
             (Own (refresh m), s\<lparr>fieldsMeta := AList.update name (refresh m) (fieldsMeta s)\<rparr>)
         | Inherited \<Rightarrow>
             (Inherited,
              s\<lparr>prototypeWrites := prototypeWrites s @
                   [MemberProperty name ''error''
                      (case err of None \<Rightarrow> VUndefined | Some m \<Rightarrow> VStr m),
                    MemberProperty name ''valid'' (VBool ok)]\<rparr>))"

section \<open>Validation\<close>

text \<open>
  The tail of \<^verbatim>\<open>validateField\<close> (``Validation with rules''): reached when no external
  schema is active, and from the Yup branch when the caught failure has no message.
  \<open>rulesToUse\<close> is what \<^verbatim>\<open>rules || fieldRules.value[name]\<close> gave: a rule list, a member
  of \<^verbatim>\<open>Object.prototype\<close>, or \<^verbatim>\<open>undefined\<close>. A member of \<^verbatim>\<open>Object.prototype\<close> is truthy
  and not iterable, so the \<^verbatim>\<open>for ... of\<close> of \<^verbatim>\<open>validateValue\<close> throws a TypeError.
  \<^verbatim>\<open>if (error)\<close> is a truthiness test, so an empty message counts as no error.
\<close>

definition validate_with_rules ::
  "(jsval \<Rightarrow> string) \<Rightarrow> string \<Rightarrow> jsval \<Rightarrow> ValidationRule list property \<Rightarrow> form_state \<Rightarrow>
     (thrown + string list result) \<times> form_state" where
  "validate_with_rules ts name v rulesToUse s =
     (case rulesToUse of
        Own rules \<Rightarrow>
          (case validateValue ts v rules of
             Inl e \<Rightarrow> (Inl e, s)
           | Inr (Some err) \<Rightarrow>
               (if err \<noteq> []
                then (Inr \<lparr>valid = False, errors = [err]\<rparr>, write_error name [err] s)
                else (Inr \<lparr>valid = True, errors = []\<rparr>,
                      s\<lparr>errorBag := AList.delete name (errorBag s)\<rparr>))
           | Inr None \<Rightarrow>
               (Inr \<lparr>valid = True, errors = []\<rparr>,
                s\<lparr>errorBag := AList.delete name (errorBag s)\<rparr>))
      | Inherited \<Rightarrow> (Inl (TypeError ''rules is not iterable''), s)
      | Absent \<Rightarrow> (Inr \<lparr>valid = True, errors = []\<rparr>, s))"

text \<open>\<^verbatim>\<open>err.issues || err.errors\<close>: an array, even an empty one, is truthy.\<close>

definition issues_of :: "js_error \<Rightarrow> issue list option" where
  "issues_of err = (case err_issues err of Some i \<Rightarrow> Some i | None \<Rightarrow> err_errors err)"

text \<open>\<^verbatim>\<open>e.path[0]\<close>, \<open>None\<close> for \<^verbatim>\<open>undefined\<close> when the path is empty.\<close>

definition path0 :: "issue \<Rightarrow> path_seg option" where
  "path0 e = (case issue_path e of [] \<Rightarrow> None | seg # _ \<Rightarrow> Some seg)"

text \<open>
  \<^verbatim>\<open>validateField(name, rules?)\<close>. \<^verbatim>\<open>rules || fieldRules.value[name]\<close>: an array is
  truthy, so a rules argument always wins. Reading a property of a thrown \<^verbatim>\<open>null\<close> or
  \<^verbatim>\<open>undefined\<close> inside a \<^verbatim>\<open>catch\<close> throws and leaves the function. \<^verbatim>\<open>e.path[0] === name\<close>
  holds for a path that starts with the string \<open>name\<close>.
\<close>

definition validateField ::
  "(jsval \<Rightarrow> string) \<Rightarrow> engine \<Rightarrow> string \<Rightarrow> ValidationRule list option \<Rightarrow> form_state \<Rightarrow>
     (thrown + string list result) \<times> form_state" where
  "validateField ts eng name rules s =
     (let v = lookup (values_value s) name;
          rulesToUse = (case rules of Some r \<Rightarrow> Own r | None \<Rightarrow> property (fieldRules s) name);
          cleared = (Inr \<lparr>valid = True, errors = []\<rparr>,
                     s\<lparr>errorBag := AList.delete name (errorBag s)\<rparr>)
      in if isZodSchema eng
         then (case call_parseAsync (activeSchema eng) (values_value s) of
                 None \<Rightarrow> cleared
               | Some Nullish \<Rightarrow> (Inl (TypeError ''Cannot read properties of null''), s)
               | Some (ErrorObj err) \<Rightarrow>
                   (case issues_of err of
                      Some issues \<Rightarrow>
                        (case find (\<lambda>e. path0 e = Some (Key name)) issues of
                           Some fieldError \<Rightarrow>
                             (Inr \<lparr>valid = False, errors = [issue_message fieldError]\<rparr>,
                              write_error name [issue_message fieldError] s)
                         | None \<Rightarrow> cleared)
                    | None \<Rightarrow> cleared))
         else if isYupSchema eng
         then (case call_validateAt (activeSchema eng) name (values_value s) of
                 None \<Rightarrow> cleared
               | Some Nullish \<Rightarrow> (Inl (TypeError ''Cannot read properties of null''), s)
               | Some (ErrorObj err) \<Rightarrow>
                   (case err_message err of
                      Some (c # cs) \<Rightarrow>
                        (Inr \<lparr>valid = False, errors = [c # cs]\<rparr>, write_error name [c # cs] s)
                    | _ \<Rightarrow> validate_with_rules ts name v rulesToUse s))
         else validate_with_rules ts name v rulesToUse s)"

text \<open>
  The property key a value becomes when used as \<^verbatim>\<open>errors.value[fieldName]\<close>: a string
  is itself, an array index its decimal numeral, \<^verbatim>\<open>undefined\<close> the key \<^verbatim>\<open>"undefined"\<close>.
\<close>

fun decimal :: "nat \<Rightarrow> string" where
  "decimal n =
     (if 10 \<le> n then decimal (n div 10) else []) @ [''0123456789'' ! (n mod 10)]"

fun property_key :: "path_seg option \<Rightarrow> string" where
  "property_key None = ''undefined''"
| "property_key (Some (Key k)) = k"
| "property_key (Some (Index i)) = decimal i"

text \<open>
  \<^verbatim>\<open>if (!errors.value[fieldName]) errors.value[fieldName] = []\<close> followed by
  \<^verbatim>\<open>errors.value[fieldName].push(message)\<close>. Where the read finds a member of
  \<^verbatim>\<open>Object.prototype\<close> nothing is assigned, and since that member has no method
  \<^verbatim>\<open>push\<close> the call throws a TypeError.
\<close>

definition push_error :: "string \<Rightarrow> string \<Rightarrow> string list obj \<Rightarrow> thrown + string list obj" where
  "push_error fieldName msg bag =
     (case property bag fieldName of
        Absent \<Rightarrow> Inr (AList.update fieldName [msg] bag)
      | Own msgs \<Rightarrow> Inr (AList.update fieldName (msgs @ [msg]) bag)
      | Inherited \<Rightarrow> Inl (TypeError ''errors.value[fieldName].push is not a function''))"

text \<open>
  The \<^verbatim>\<open>forEach\<close> over the issues of a caught failure, each given by its key and its
  message: a throwing turn ends it and leaves the entries written so far.
\<close>

fun collect_errors ::
  "(string \<times> string) list \<Rightarrow> form_state \<Rightarrow> (thrown + unit) \<times> form_state" where
  "collect_errors [] s = (Inr (), s)"
| "collect_errors ((fieldName, msg) # rest) s =
     (case push_error fieldName msg (errorBag s) of
        Inl e \<Rightarrow> (Inl e, s)
      | Inr bag \<Rightarrow> collect_errors rest (s\<lparr>errorBag := bag\<rparr>))"

text \<open>
  ``Convert to \<^verbatim>\<open>Record<string, string>\<close> (first error)'': every key of the bag with
  element 0 of its list, which is \<^verbatim>\<open>undefined\<close> (\<open>None\<close>) for an empty list. The bag
  was emptied when \<^verbatim>\<open>validate\<close> started and has been filled by assignments since, so
  none of its keys is \<^verbatim>\<open>__proto__\<close>.
\<close>

definition simpleErrors :: "string list obj \<Rightarrow> string option obj" where
  "simpleErrors bag = map (\<lambda>(key, msgs). (key, first_message msgs)) bag"

text \<open>
  The loop of \<^verbatim>\<open>validate\<close> over \<^verbatim>\<open>Object.entries(fieldRules.value)\<close>, with the local
  \<^verbatim>\<open>isValid\<close> as accumulator. A rejected \<^verbatim>\<open>validateField\<close> leaves the loop.
\<close>

fun validate_entries ::
  "(jsval \<Rightarrow> string) \<Rightarrow> engine \<Rightarrow> ValidationRule list obj \<Rightarrow> bool \<Rightarrow> form_state \<Rightarrow>
     (thrown + bool) \<times> form_state" where
  "validate_entries ts eng [] isValid s = (Inr isValid, s)"
| "validate_entries ts eng ((fieldName, rules) # rest) isValid s =
     (case validateField ts eng fieldName (Some rules) s of
        (Inl e, s') \<Rightarrow> (Inl e, s')
      | (Inr r, s') \<Rightarrow> validate_entries ts eng rest (if valid r then isValid else False) s')"

definition validate ::
  "(jsval \<Rightarrow> string) \<Rightarrow> engine \<Rightarrow> form_state \<Rightarrow>
     (thrown + string option obj result) \<times> form_state" where
  "validate ts eng s =
     (let s1 = s\<lparr>isValidating := True, errorBag := []\<rparr>;
          failed = (\<lambda>collected.
                      case collected of
                        (Inl e, s2) \<Rightarrow> (Inl e, s2)
                      | (Inr _, s2) \<Rightarrow>
                          (let s3 = s2\<lparr>isValidating := False\<rparr>
                           in (Inr \<lparr>valid = False, errors = simpleErrors (errorBag s3)\<rparr>, s3)))
      in if isZodSchema eng
         then (case call_parseAsync (activeSchema eng) (values_value s1) of
                 None \<Rightarrow> (Inr \<lparr>valid = True, errors = []\<rparr>, s1\<lparr>isValidating := False\<rparr>)
               | Some Nullish \<Rightarrow> (Inl (TypeError ''Cannot read properties of null''), s1)
               | Some (ErrorObj err) \<Rightarrow>
                   failed (case issues_of err of
                             Some issues \<Rightarrow>
                               collect_errors
                                 (map (\<lambda>e. (property_key (path0 e), issue_message e)) issues) s1
                           | None \<Rightarrow> (Inr (), s1)))
         else if isYupSchema eng
         then (case call_validate (activeSchema eng) (values_value s1) of
                 None \<Rightarrow> (Inr \<lparr>valid = True, errors = []\<rparr>, s1\<lparr>isValidating := False\<rparr>)
               | Some Nullish \<Rightarrow> (Inl (TypeError ''Cannot read properties of null''), s1)
               | Some (ErrorObj err) \<Rightarrow>
                   failed (case err_inner err of
                             Some inner \<Rightarrow>
                               collect_errors
                                 (map (\<lambda>e. (property_key (map_option Key (inner_path e)),
                                            inner_message e)) inner) s1
                           | None \<Rightarrow> (Inr (), s1)))
         else (case validate_entries ts eng (fieldRules s1) True s1 of
                 (Inl e, s2) \<Rightarrow> (Inl e, s2)
               | (Inr isValid, s2) \<Rightarrow>
                   (let s3 = s2\<lparr>isValidating := False\<rparr>
                    in (Inr \<lparr>valid = isValid, errors = simpleErrors (errorBag s3)\<rparr>, s3))))"

section \<open>Reset\<close>

text \<open>\<^verbatim>\<open>Partial<FormState>\<close>: every property may be absent.\<close>

record PartialState =
  state_errors :: "string obj option"
  state_touched :: "bool obj option"
  state_values :: "jsval obj option"
  state_submitCount :: "nat option"

text \<open>
  \<^verbatim>\<open>resetForm(state?)\<close>. The spread \<^verbatim>\<open>{ ...(state?.values || initialValues) }\<close> builds a
  new object with the properties of its source; \<^verbatim>\<open>initialValues\<close> is read at the moment
  of the call.
\<close>

definition resetForm :: "engine \<Rightarrow> PartialState option \<Rightarrow> form_state \<Rightarrow> form_state" where
  "resetForm eng state s =
     (let source = (case Option.bind state state_values of
                      Some vs \<Rightarrow> vs
                    | None \<Rightarrow> heap s (initialValues eng));
          (a, s1) = alloc source s;
          s2 = s1\<lparr>values_ref := a\<rparr>;
          s3 = (case Option.bind state state_errors of
                  Some es \<Rightarrow> foldl (\<lambda>s (key, val). write_error key [val] s) (s2\<lparr>errorBag := []\<rparr>) es
                | None \<Rightarrow> s2\<lparr>errorBag := []\<rparr>);
          s4 = (case Option.bind state state_touched of
                  Some tm \<Rightarrow>
                    foldl (\<lambda>s (key, val). write_meta key (new_meta val) s) (s3\<lparr>fieldsMeta := []\<rparr>) tm
                | None \<Rightarrow> s3\<lparr>fieldsMeta := []\<rparr>)
      in s4\<lparr>isSubmitting := False, isValidating := False,
            submitCount := (case Option.bind state state_submitCount of Some n \<Rightarrow> n | None \<Rightarrow> 0)\<rparr>)"

definition handleReset :: "engine \<Rightarrow> form_state \<Rightarrow> form_state" where
  "handleReset eng s = resetForm eng None s"

section \<open>Submission\<close>

text \<open>
  The handler \<^verbatim>\<open>handleSubmit(onValid?, onInvalid?)\<close> returns, applied to an optional
  event (\<open>e\<close> says whether one was passed). \<open>begin_submit\<close> is its part before
  \<^verbatim>\<open>await validate()\<close>. The result is how the handler's promise
  settles: \<open>Inr ()\<close> resolved, \<open>Inl x\<close> rejected with \<open>x\<close>. Only the call of
  \<^verbatim>\<open>onValid\<close>/\<^verbatim>\<open>onSubmit\<close> stands inside \<^verbatim>\<open>try\<close>/\<^verbatim>\<open>catch\<close>; a rejected \<^verbatim>\<open>validate()\<close> and
  a throwing \<^verbatim>\<open>onInvalid\<close> leave the handler before its last statement.
\<close>

definition begin_submit :: "bool \<Rightarrow> form_state \<Rightarrow> form_state" where
  "begin_submit e s =
     (let s0 = (if e then s\<lparr>effects := effects s @ [PreventDefault, StopPropagation]\<rparr> else s);
          s1 = s0\<lparr>isSubmitting := True\<rparr>
      in s1\<lparr>submitCount := submitCount s1 + 1\<rparr>)"

definition handleSubmit ::
  "(jsval \<Rightarrow> string) \<Rightarrow> engine \<Rightarrow> callback option \<Rightarrow>
     (string list obj \<Rightarrow> form_state \<Rightarrow> (thrown + unit) \<times> form_state) option \<Rightarrow>
     bool \<Rightarrow> form_state \<Rightarrow> (thrown + unit) \<times> form_state" where
  "handleSubmit ts eng onValid onInvalid e s =
     (case validate ts eng (begin_submit e s) of
           (Inl x, s3) \<Rightarrow> (Inl x, s3)
         | (Inr r, s3) \<Rightarrow>
             (if valid r
              then (case (case onValid of Some cb \<Rightarrow> Some cb | None \<Rightarrow> onSubmit eng) of
                      None \<Rightarrow> (Inr (), s3\<lparr>isSubmitting := False\<rparr>)
                    | Some cb \<Rightarrow>
                        (case cb s3 of
                           (Inr _, s4) \<Rightarrow> (Inr (), s4\<lparr>isSubmitting := False\<rparr>)
                         | (Inl x, s4) \<Rightarrow>
                             (Inr (), s4\<lparr>effects := effects s4 @ [ConsoleError x],
                                         isSubmitting := False\<rparr>)))
              else (case onInvalid of
                      None \<Rightarrow> (Inr (), s3\<lparr>isSubmitting := False\<rparr>)
                    | Some f \<Rightarrow>
                        (case f (errorBag s3) s3 of
                           (Inl x, s4) \<Rightarrow> (Inl x, s4)
                         | (Inr _, s4) \<Rightarrow> (Inr (), s4\<lparr>isSubmitting := False\<rparr>)))))"

definition submitForm ::
  "(jsval \<Rightarrow> string) \<Rightarrow> engine \<Rightarrow> bool \<Rightarrow> form_state \<Rightarrow> (thrown + unit) \<times> form_state" where
  "submitForm ts eng e s = handleSubmit ts eng None None e s"

section \<open>Field binding\<close>

datatype validate_on = blur | change | submit

record register_options =
  rules :: "ValidationRule list option"
  validateOn :: "validate_on option"

text \<open>
  \<^verbatim>\<open>register(name, options?)\<close>: its effect on the state. The returned handle holds the
  name, a computed view of the value and the two callbacks below.
\<close>

definition register :: "string \<Rightarrow> register_options option \<Rightarrow> form_state \<Rightarrow> form_state" where
  "register name options s =
     (let s1 = (case Option.bind options rules of
                  Some rs \<Rightarrow> write_rules name rs s
                | None \<Rightarrow> s)
      in if \<not> truthy (lookup (values_value s1) name)
         then write_value name (VStr []) s1
         else s1)"

text \<open>\<^verbatim>\<open>const { rules, validateOn = 'blur' } = options || {}\<close>.\<close>

definition validateOn_of :: "register_options option \<Rightarrow> validate_on" where
  "validateOn_of options =
     (case Option.bind options validateOn of Some v \<Rightarrow> v | None \<Rightarrow> blur)"

text \<open>
  The callbacks call \<^verbatim>\<open>validateField\<close> without awaiting it: its effect on the state
  stays, its result (also a rejection) is dropped.
\<close>

definition onInput ::
  "(jsval \<Rightarrow> string) \<Rightarrow> engine \<Rightarrow> string \<Rightarrow> register_options option \<Rightarrow> jsval \<Rightarrow>
     form_state \<Rightarrow> form_state" where
  "onInput ts eng name options target_value s =
     (let s1 = setFieldValue name target_value s
      in if validateOn_of options = change
         then snd (validateField ts eng name (Option.bind options rules) s1)
         else s1)"

definition onBlur ::
  "(jsval \<Rightarrow> string) \<Rightarrow> engine \<Rightarrow> string \<Rightarrow> register_options option \<Rightarrow>
     form_state \<Rightarrow> form_state" where
  "onBlur ts eng name options s =
     (let s2 = mark_meta name False ''touched'' (VBool True) (\<lambda>m. m\<lparr>touched := True\<rparr>) s
      in if validateOn_of options = blur
         then snd (validateField ts eng name (Option.bind options rules) s2)
         else s2)"

section \<open>Construction\<close>

text \<open>
  \<^verbatim>\<open>interface UseFormOptions\<close>; an absent option is \<open>None\<close>. \<^verbatim>\<open>initialValues\<close> is the
  address of the caller's object.
\<close>

record UseFormOptions =
  opt_initialValues :: "addr option"
  opt_initialErrors :: "string obj option"
  opt_initialTouched :: "bool obj option"
  opt_validationSchema :: "schema option"
  opt_schema :: "schema option"
  opt_validateOnMount :: "bool option"
  opt_onSubmit :: "callback option"

text \<open>The default \<^verbatim>\<open>options = {}\<close>: every option absent.\<close>

definition default_options :: UseFormOptions where
  "default_options =
     \<lparr>opt_initialValues = None, opt_initialErrors = None, opt_initialTouched = None,
      opt_validationSchema = None, opt_schema = None, opt_validateOnMount = None,
      opt_onSubmit = None\<rparr>"

text \<open>\<^verbatim>\<open>const activeSchema = validationSchema || schema\<close>: a schema object is truthy.\<close>

definition active_schema :: "UseFormOptions \<Rightarrow> schema option" where
  "active_schema options =
     (case opt_validationSchema options of
        Some v \<Rightarrow> Some v
      | None \<Rightarrow> opt_schema options)"

text \<open>
  \<^verbatim>\<open>useForm(options)\<close> run on the caller's store (\<open>h\<close>, with \<open>n\<close> its first free
  address): the constants of the closure and the state after the body has run. The
  default \<^verbatim>\<open>initialValues = {}\<close> is a new empty object. The loop over \<^verbatim>\<open>initialTouched\<close>
  has the body of \<^verbatim>\<open>setFieldTouched\<close>. \<^verbatim>\<open>fieldRules.value = activeSchema\<close> is reached
  by a schema object on which neither probe succeeds.
\<close>

definition useForm ::
  "(jsval \<Rightarrow> string) \<Rightarrow> UseFormOptions \<Rightarrow> (addr \<Rightarrow> jsval obj) \<Rightarrow> addr \<Rightarrow> engine \<times> form_state" where
  "useForm ts options h n =
     (let w = \<lparr>heap = h, next_addr = n, values_ref = 0, errorBag = [], fieldsMeta = [],
               isSubmitting = False, isValidating = False, submitCount = 0, fieldRules = [],
               effects = [], prototypeWrites = []\<rparr>;
          (init, w1) = (case opt_initialValues options of
                          Some a \<Rightarrow> (a, w)
                        | None \<Rightarrow> alloc [] w);
          eng = \<lparr>initialValues = init, activeSchema = active_schema options,
                 onSubmit = opt_onSubmit options\<rparr>;
          (a, w2) = alloc (heap w1 init) w1;
          s1 = w2\<lparr>values_ref := a\<rparr>;
          s2 = foldl (\<lambda>s (key, val). write_error key [val] s) s1
                 (case opt_initialErrors options of Some es \<Rightarrow> es | None \<Rightarrow> []);
          s3 = foldl (\<lambda>s (key, val). setFieldTouched key val s) s2
                 (case opt_initialTouched options of Some tm \<Rightarrow> tm | None \<Rightarrow> []);
          s4 = (case activeSchema eng of
                  Some (RulesSchema rs) \<Rightarrow>
                    if \<not> isZodSchema eng \<and> \<not> isYupSchema eng then s3\<lparr>fieldRules := rs\<rparr> else s3
                | _ \<Rightarrow> s3)
      in if opt_validateOnMount options = Some True
         then (eng, snd (validate ts eng s4))
         else (eng, s4))"

section \<open>The states an engine can reach\<close>

text \<open>
  \<open>engine_run ts eng s t\<close>: the state \<open>t\<close> is reached from \<open>s\<close> by calls of the
  operations \<^verbatim>\<open>useForm\<close> returns, and of the callbacks \<^verbatim>\<open>register\<close> hands out. The
  callbacks given to \<^verbatim>\<open>handleSubmit\<close>, and the engine's \<^verbatim>\<open>onSubmit\<close>, change the form
  through these operations only (they are handed the submission context for this);
  in particular nobody writes to the caller's initial-values object behind the
  engine's back.
\<close>

inductive engine_run :: "(jsval \<Rightarrow> string) \<Rightarrow> engine \<Rightarrow> form_state \<Rightarrow> form_state \<Rightarrow> bool"
  for ts :: "jsval \<Rightarrow> string" and eng :: engine where
  run_start: "engine_run ts eng s s"
| run_setFieldValue: "engine_run ts eng s t \<Longrightarrow> engine_run ts eng s (setFieldValue name v t)"
| run_setValues: "engine_run ts eng s t \<Longrightarrow> engine_run ts eng s (setValues vs t)"
| run_setFieldError: "engine_run ts eng s t \<Longrightarrow> engine_run ts eng s (setFieldError name msg t)"
| run_setErrors: "engine_run ts eng s t \<Longrightarrow> engine_run ts eng s (setErrors es t)"
| run_setServerErrors: "engine_run ts eng s t \<Longrightarrow> engine_run ts eng s (setServerErrors ses t)"
| run_setFieldTouched: "engine_run ts eng s t \<Longrightarrow> engine_run ts eng s (setFieldTouched name b t)"
| run_setTouched: "engine_run ts eng s t \<Longrightarrow> engine_run ts eng s (setTouched bs t)"
| run_getFieldMeta: "engine_run ts eng s t \<Longrightarrow> engine_run ts eng s (snd (getFieldMeta name t))"
| run_validateField:
    "engine_run ts eng s t \<Longrightarrow> engine_run ts eng s (snd (validateField ts eng name arg t))"
| run_validate: "engine_run ts eng s t \<Longrightarrow> engine_run ts eng s (snd (validate ts eng t))"
| run_resetForm: "engine_run ts eng s t \<Longrightarrow> engine_run ts eng s (resetForm eng state t)"
| run_register: "engine_run ts eng s t \<Longrightarrow> engine_run ts eng s (register name options t)"
| run_onInput:
    "engine_run ts eng s t \<Longrightarrow> engine_run ts eng s (onInput ts eng name options v t)"
| run_onBlur: "engine_run ts eng s t \<Longrightarrow> engine_run ts eng s (onBlur ts eng name options t)"
| run_handleSubmit:
    "engine_run ts eng s t \<Longrightarrow>
     (\<And>cb u. onValid = Some cb \<or> onSubmit eng = Some cb \<Longrightarrow> engine_run ts eng u (snd (cb u))) \<Longrightarrow>
     (\<And>f bag u. onInvalid = Some f \<Longrightarrow> engine_run ts eng u (snd (f bag u))) \<Longrightarrow>
     engine_run ts eng s (snd (handleSubmit ts eng onValid onInvalid e t))"

text \<open>
  The caller's initial-values object is allocated, is not the object \<^verbatim>\<open>values\<close> points
  to, and has the properties \<open>c\<close>.
\<close>

definition initial_kept :: "engine \<Rightarrow> jsval obj \<Rightarrow> form_state \<Rightarrow> bool" where
  "initial_kept eng c s =
     (initialValues eng < next_addr s \<and> values_ref s \<noteq> initialValues eng \<and>
      heap s (initialValues eng) = c)"

section \<open>Example forms\<close>

text \<open>
  Concrete forms, as the repository's test suite builds them: \<open>form_of options initial\<close>
  is \<^verbatim>\<open>useForm({ ...options, initialValues: initial })\<close> where the caller's store holds
  the object \<open>initial\<close> at address 0 and nothing else. The examples hand no value
  but strings to a regular expression, so the conversion of the other values is of no
  consequence in them; \<open>object_string\<close> stands in for it.
\<close>

definition object_string :: "jsval \<Rightarrow> string" where
  "object_string v = ''[object Object]''"

definition form_of :: "UseFormOptions \<Rightarrow> jsval obj \<Rightarrow> engine \<times> form_state" where
  "form_of options initial =
     useForm object_string (options\<lparr>opt_initialValues := Some 0\<rparr>)
       ((\<lambda>_. [])(0 := initial)) 1"

text \<open>\<^verbatim>\<open>{ type: 'required', message: 'Name is required' }\<close>\<close>

definition required_rule :: ValidationRule where
  "required_rule = \<lparr>rule_type = Required, rule_value = NoValue, message = ''Name is required''\<rparr>"


text \<open>A custom rule whose predicate throws: \<^verbatim>\<open>value: () => { throw new TypeError('boom') }\<close>.\<close>

definition throwing_rule :: ValidationRule where
  "throwing_rule =
     \<lparr>rule_type = Custom, rule_value = FnValue (\<lambda>v. Inl (TypeError ''boom'')),
      message = ''Custom check failed''\<rparr>"

text \<open>\<^verbatim>\<open>useForm({ schema: { name: [throwing_rule] }, initialValues: { name: 'John' } })\<close>\<close>

definition throwing_rule_form :: "engine \<times> form_state" where
  "throwing_rule_form =
     form_of (default_options\<lparr>opt_schema := Some (RulesSchema [(''name'', [throwing_rule])])\<rparr>)
       [(''name'', VStr ''John'')]"

text \<open>\<^verbatim>\<open>useForm({ initialValues: { age: 0, agree: false } })\<close>\<close>

definition falsy_values_form :: "engine \<times> form_state" where
  "falsy_values_form =
     form_of default_options [(''age'', VNum (Finite 0)), (''agree'', VBool False)]"

text \<open>\<^verbatim>\<open>new Error()\<close>: an error object whose message is the empty string.\<close>

definition no_message_error :: thrown where
  "no_message_error =
     ErrorObj \<lparr>err_issues = None, err_errors = None, err_message = Some [], err_inner = None\<rparr>"

text \<open>
  A form on a Yup schema whose validation rejects with \<open>no_message_error\<close>, constructed
  with \<^verbatim>\<open>initialErrors: { name: 'Name is taken' }\<close>.
\<close>

definition yup_no_message_form :: "engine \<times> form_state" where
  "yup_no_message_form =
     form_of (default_options
        \<lparr>opt_initialErrors := Some [(''name'', ''Name is taken'')],
         opt_schema := Some (YupSchema \<lparr>validateAt = (\<lambda>name vs. Some no_message_error),
                                        yup_validate = (\<lambda>vs. Some no_message_error)\<rparr>)\<rparr>)
       [(''name'', VStr ''John'')]"

text \<open>\<^verbatim>\<open>useForm({ initialValues: { name: 'John' } })\<close>: no schema, no rules.\<close>

definition plain_form :: "engine \<times> form_state" where
  "plain_form = form_of default_options [(''name'', VStr ''John'')]"



text \<open>\<^verbatim>\<open>new Error('Submission error')\<close> and an \<^verbatim>\<open>onSubmit\<close> that rejects with it.\<close>

definition submission_error :: thrown where
  "submission_error =
     ErrorObj \<lparr>err_issues = None, err_errors = None, err_message = Some ''Submission error'',
               err_inner = None\<rparr>"

definition rejecting_onSubmit_form :: "engine \<times> form_state" where
  "rejecting_onSubmit_form =
     form_of (default_options\<lparr>opt_onSubmit := Some (\<lambda>s. (Inl submission_error, s))\<rparr>)
       [(''name'', VStr ''John'')]"

text \<open>
  \<^verbatim>\<open>useForm({ validationSchema: { name: [required_rule] }, schema: {}, initialValues: {} })\<close>
\<close>

definition both_schemas_options :: UseFormOptions where
  "both_schemas_options =
     default_options\<lparr>opt_initialValues := Some 0,
                     opt_validationSchema := Some (RulesSchema [(''name'', [required_rule])]),
                     opt_schema := Some (RulesSchema [])\<rparr>"



section \<open>Facts used by several results\<close>

lemmas fixture_defs = form_of_def useForm_def default_options_def active_schema_def alloc_def
  values_value_def lookup_def property_def has_property_def Let_def


lemma validateValue_append_pass:
  "list_all (\<lambda>r. rule_fails ts v r = Inr False) pre \<Longrightarrow>
   validateValue ts v (pre @ rest) = validateValue ts v rest"
  by (induction pre) simp_all

lemma validateValue_None_iff:
  "validateValue ts v rs = Inr None \<longleftrightarrow> list_all (\<lambda>r. rule_fails ts v r = Inr False) rs"
  by (induction rs) (auto split: sum.splits bool.splits)

lemma validateValue_Some_split:
  "validateValue ts v rs = Inr (Some m) \<Longrightarrow>
   \<exists>pre r post. rs = pre @ r # post \<and> list_all (\<lambda>r. rule_fails ts v r = Inr False) pre \<and>
      rule_fails ts v r = Inr True \<and> m = message r"
proof (induction rs)
  case Nil
  then show ?case by simp
next
  case (Cons a rs)
  show ?case
  proof (cases "rule_fails ts v a")
    case (Inl e)
    with Cons.prems show ?thesis by simp
  next
    case (Inr b)
    show ?thesis
    proof (cases b)
      case True
      with Inr Cons.prems have "m = message a" by simp
      with Inr True have "a # rs = [] @ a # rs \<and> list_all (\<lambda>r. rule_fails ts v r = Inr False) [] \<and>
        rule_fails ts v a = Inr True \<and> m = message a" by simp
      then show ?thesis by blast
    next
      case False
      with Inr Cons.prems have "validateValue ts v rs = Inr (Some m)" by simp
      from Cons.IH[OF this] obtain pre r post where
        h: "rs = pre @ r # post" "list_all (\<lambda>r. rule_fails ts v r = Inr False) pre"
           "rule_fails ts v r = Inr True" "m = message r" by blast
      with Inr False have "a # rs = (a # pre) @ r # post \<and>
         list_all (\<lambda>r. rule_fails ts v r = Inr False) (a # pre) \<and>
        rule_fails ts v r = Inr True \<and> m = message r" by simp
      then show ?thesis by blast
    qed
  qed
qed

text \<open>Reads and writes at keys that \<^verbatim>\<open>Object.prototype\<close> does not define.\<close>

lemma proto_name_inherited: "''__proto__'' \<in> set object_prototype_names"
  by (simp add: object_prototype_names_def)




lemma property_Inherited_iff:
  "property obj name = Inherited \<longleftrightarrow> map_of obj name = None \<and> name \<in> set object_prototype_names"
  by (simp add: property_def split: option.splits)




text \<open>Validation writes nothing but the error bag, the \<^verbatim>\<open>isValidating\<close> flag and, at the key \<^verbatim>\<open>__proto__\<close>, a prototype.\<close>

lemma write_error_frame:
  "write_error name msgs s = s' \<Longrightarrow>
   s' = s\<lparr>errorBag := errorBag s', prototypeWrites := prototypeWrites s'\<rparr>"
  by (auto simp: write_error_def)

lemma frame_trans:
  assumes "s1 = s\<lparr>errorBag := errorBag s1, prototypeWrites := prototypeWrites s1\<rparr>"
      and "s2 = s1\<lparr>errorBag := errorBag s2, prototypeWrites := prototypeWrites s2\<rparr>"
  shows "s2 = s\<lparr>errorBag := errorBag s2, prototypeWrites := prototypeWrites s2\<rparr>"
proof -
  define b1 where "b1 = errorBag s1"
  define w1 where "w1 = prototypeWrites s1"
  define b2 where "b2 = errorBag s2"
  define w2 where "w2 = prototypeWrites s2"
  have "s1 = s\<lparr>errorBag := b1, prototypeWrites := w1\<rparr>"
    using assms(1) by (simp add: b1_def w1_def)
  moreover have "s2 = s1\<lparr>errorBag := b2, prototypeWrites := w2\<rparr>"
    using assms(2) by (simp add: b2_def w2_def)
  ultimately have "s2 = s\<lparr>errorBag := b2, prototypeWrites := w2\<rparr>" by simp
  then show ?thesis unfolding b2_def w2_def .
qed



lemma validate_with_rules_frame:
  "validate_with_rules ts name v rs s = (r, s') \<Longrightarrow>
   s' = s\<lparr>errorBag := errorBag s', prototypeWrites := prototypeWrites s'\<rparr>"
  by (auto simp: validate_with_rules_def write_error_def
      split: sum.splits option.splits if_splits property.splits)

lemma validateField_frame:
  "validateField ts eng name arg s = (r, s') \<Longrightarrow>
   s' = s\<lparr>errorBag := errorBag s', prototypeWrites := prototypeWrites s'\<rparr>"
  by (auto simp: validateField_def Let_def write_error_def
      split: option.splits thrown.splits list.splits if_splits
      dest: validate_with_rules_frame)

lemma validate_entries_frame:
  "validate_entries ts eng es b s = (r, s') \<Longrightarrow>
   s' = s\<lparr>errorBag := errorBag s', prototypeWrites := prototypeWrites s'\<rparr>"
proof (induction es arbitrary: b s)
  case Nil
  then show ?case by auto
next
  case (Cons e es)
  obtain f rs where e: "e = (f, rs)" by (cases e)
  obtain r1 s1 where vf: "validateField ts eng f (Some rs) s = (r1, s1)"
    by (cases "validateField ts eng f (Some rs) s")
  from validateField_frame[OF vf]
  have s1: "s1 = s\<lparr>errorBag := errorBag s1, prototypeWrites := prototypeWrites s1\<rparr>" .
  show ?case
  proof (cases r1)
    case (Inl x)
    with Cons.prems e vf have "s' = s1" by simp
    with s1 show ?thesis by simp
  next
    case (Inr res)
    with Cons.prems e vf
    have "validate_entries ts eng es (if valid res then b else False) s1 = (r, s')" by simp
    from Cons.IH[OF this]
    have "s' = s1\<lparr>errorBag := errorBag s', prototypeWrites := prototypeWrites s'\<rparr>" .
    from frame_trans[OF s1 this] show ?thesis .
  qed
qed

lemma collect_errors_frame:
  "collect_errors es s = (r, s') \<Longrightarrow> s' = s\<lparr>errorBag := errorBag s'\<rparr>"
proof (induction es arbitrary: s)
  case Nil
  then show ?case by auto
next
  case (Cons e es)
  obtain f m where e: "e = (f, m)" by (cases e)
  show ?case
  proof (cases "push_error f m (errorBag s)")
    case (Inl x)
    with Cons.prems e show ?thesis by auto
  next
    case (Inr bag)
    with Cons.prems e have "collect_errors es (s\<lparr>errorBag := bag\<rparr>) = (r, s')" by simp
    from Cons.IH[OF this] have s': "s' = s\<lparr>errorBag := bag\<rparr>\<lparr>errorBag := errorBag s'\<rparr>" .
    define b2 where "b2 = errorBag s'"
    have "s' = s\<lparr>errorBag := bag\<rparr>\<lparr>errorBag := b2\<rparr>" using s' by (simp add: b2_def)
    then have "s' = s\<lparr>errorBag := b2\<rparr>" by simp
    then show ?thesis unfolding b2_def .
  qed
qed

lemma validate_frame:
  assumes "validate ts eng s = (r, s')"
  shows "s' = s\<lparr>isValidating := isValidating s', errorBag := errorBag s',
                 prototypeWrites := prototypeWrites s'\<rparr>"
proof -
  let ?s1 = "s\<lparr>isValidating := True, errorBag := []\<rparr>"
  have collected: "\<And>es c s2. collect_errors es ?s1 = (c, s2) \<Longrightarrow>
      s2 = s\<lparr>isValidating := True, errorBag := errorBag s2\<rparr>"
  proof -
    fix es c s2
    assume "collect_errors es ?s1 = (c, s2)"
    from collect_errors_frame[OF this] have "s2 = ?s1\<lparr>errorBag := errorBag s2\<rparr>" .
    then show "s2 = s\<lparr>isValidating := True, errorBag := errorBag s2\<rparr>" by simp
  qed
  show ?thesis
  proof (cases "isZodSchema eng")
    case True
    show ?thesis
    proof (cases "call_parseAsync (activeSchema eng) (values_value ?s1)")
      case None
      with True assms show ?thesis by (auto simp: validate_def Let_def)
    next
      case (Some t)
      show ?thesis
      proof (cases t)
        case Nullish
        with True Some assms show ?thesis by (auto simp: validate_def Let_def)
      next
        case (ErrorObj err)
        show ?thesis
        proof (cases "issues_of err")
          case None
          with True Some ErrorObj assms show ?thesis by (auto simp: validate_def Let_def)
        next
          case (Some issues)
          obtain c s2 where ce: "collect_errors
              (map (\<lambda>e. (property_key (path0 e), issue_message e)) issues) ?s1 = (c, s2)"
            by (cases "collect_errors
              (map (\<lambda>e. (property_key (path0 e), issue_message e)) issues) ?s1")
          define b2 where "b2 = errorBag s2"
          have s2: "s2 = s\<lparr>isValidating := True, errorBag := b2\<rparr>"
            using collected[OF ce] by (simp add: b2_def)
          from True \<open>call_parseAsync (activeSchema eng) (values_value ?s1) = Some t\<close>
            ErrorObj Some ce assms s2
          show ?thesis by (cases c) (auto simp: validate_def Let_def)
        qed
      qed
    qed
  next
    case False
    note nz = False
    show ?thesis
    proof (cases "isYupSchema eng")
      case True
      show ?thesis
      proof (cases "call_validate (activeSchema eng) (values_value ?s1)")
        case None
        with nz True assms show ?thesis by (auto simp: validate_def Let_def)
      next
        case (Some t)
        show ?thesis
        proof (cases t)
          case Nullish
          with nz True Some assms show ?thesis by (auto simp: validate_def Let_def)
        next
          case (ErrorObj err)
          show ?thesis
          proof (cases "err_inner err")
            case None
            with nz True Some ErrorObj assms show ?thesis by (auto simp: validate_def Let_def)
          next
            case (Some inner)
            obtain c s2 where ce: "collect_errors
                (map (\<lambda>e. (property_key (map_option Key (inner_path e)), inner_message e)) inner)
                ?s1 = (c, s2)"
              by (cases "collect_errors
                (map (\<lambda>e. (property_key (map_option Key (inner_path e)), inner_message e)) inner)
                ?s1")
            define b2 where "b2 = errorBag s2"
            have s2: "s2 = s\<lparr>isValidating := True, errorBag := b2\<rparr>"
              using collected[OF ce] by (simp add: b2_def)
            from nz True \<open>call_validate (activeSchema eng) (values_value ?s1) = Some t\<close>
              ErrorObj Some ce assms s2
            show ?thesis by (cases c) (auto simp: validate_def Let_def)
          qed
        qed
      qed
    next
      case False
      obtain r2 s2 where ve: "validate_entries ts eng (fieldRules ?s1) True ?s1 = (r2, s2)"
        by (cases "validate_entries ts eng (fieldRules ?s1) True ?s1")
      define b2 where "b2 = errorBag s2"
      define w2 where "w2 = prototypeWrites s2"
      from validate_entries_frame[OF ve]
      have "s2 = ?s1\<lparr>errorBag := b2, prototypeWrites := w2\<rparr>" by (simp add: b2_def w2_def)
      then have s2: "s2 = s\<lparr>isValidating := True, errorBag := b2, prototypeWrites := w2\<rparr>"
        by simp
      have ve': "validate_entries ts eng (fieldRules s) True ?s1 = (r2, s2)"
        using ve by simp
      from nz False assms ve' s2 show ?thesis
        by (cases r2) (auto simp: validate_def Let_def)
    qed
  qed
qed

lemma validate_preserves:
  assumes "validate ts eng s = (r, s')"
  shows "submitCount s' = submitCount s" and "heap s' = heap s" and "values_ref s' = values_ref s"
    and "isSubmitting s' = isSubmitting s" and "effects s' = effects s"
    and "fieldRules s' = fieldRules s" and "fieldsMeta s' = fieldsMeta s"
    and "next_addr s' = next_addr s"
proof -
  let ?t = "s\<lparr>isValidating := isValidating s', errorBag := errorBag s',
               prototypeWrites := prototypeWrites s'\<rparr>"
  have eq: "s' = ?t" using validate_frame[OF assms] .
  have "submitCount s' = submitCount ?t" using eq by (rule arg_cong)
  then show "submitCount s' = submitCount s" by simp
  have "heap s' = heap ?t" using eq by (rule arg_cong)
  then show "heap s' = heap s" by simp
  have "values_ref s' = values_ref ?t" using eq by (rule arg_cong)
  then show "values_ref s' = values_ref s" by simp
  have "isSubmitting s' = isSubmitting ?t" using eq by (rule arg_cong)
  then show "isSubmitting s' = isSubmitting s" by simp
  have "effects s' = effects ?t" using eq by (rule arg_cong)
  then show "effects s' = effects s" by simp
  have "fieldRules s' = fieldRules ?t" using eq by (rule arg_cong)
  then show "fieldRules s' = fieldRules s" by simp
  have "fieldsMeta s' = fieldsMeta ?t" using eq by (rule arg_cong)
  then show "fieldsMeta s' = fieldsMeta s" by simp
  have "next_addr s' = next_addr ?t" using eq by (rule arg_cong)
  then show "next_addr s' = next_addr s" by simp
qed









text \<open>The email pattern.\<close>

lemma email_char_dot: "email_char CHR ''.''"
  by (simp add: email_char_def is_space_def)

lemma email_char_not_at: "email_char c \<Longrightarrow> c \<noteq> CHR ''@''"
  by (simp add: email_char_def)

lemma takeWhile_local:
  assumes "list_all email_char a"
  shows "takeWhile (\<lambda>c. c \<noteq> CHR ''@'') (a @ CHR ''@'' # rest) = a"
    and "dropWhile (\<lambda>c. c \<noteq> CHR ''@'') (a @ CHR ''@'' # rest) = CHR ''@'' # rest"
  using assms by (induction a) (auto simp: email_char_def)

lemma email_regex_test_intro:
  assumes "a \<noteq> []" "b \<noteq> []" "c \<noteq> []"
      and "list_all email_char a" "list_all email_char b" "list_all email_char c"
  shows "email_regex_test (a @ ''@'' @ b @ ''.'' @ c)"
proof -
  obtain b0 bs where b: "b = b0 # bs" using assms(2) by (cases b) auto
  obtain cs cl where c: "c = cs @ [cl]" using assms(3) by (cases c rule: rev_cases) auto
  have "butlast (tl (b @ ''.'' @ c)) = bs @ ''.'' @ cs"
    by (simp add: b c butlast_append)
  then have "CHR ''.'' \<in> set (butlast (tl (b @ ''.'' @ c)))" by simp
  then show ?thesis
    using assms takeWhile_local[OF assms(4), of "b @ ''.'' @ c"]
    by (simp add: email_regex_test_def Let_def email_char_dot)
qed

lemma email_regex_test_elim:
  assumes "email_regex_test s"
  shows "\<exists>a b c. s = a @ ''@'' @ b @ ''.'' @ c \<and> a \<noteq> [] \<and> b \<noteq> [] \<and> c \<noteq> [] \<and>
           list_all email_char a \<and> list_all email_char b \<and> list_all email_char c"
proof -
  let ?a = "takeWhile (\<lambda>c. c \<noteq> CHR ''@'') s"
  let ?rest = "dropWhile (\<lambda>c. c \<noteq> CHR ''@'') s"
  let ?d = "tl ?rest"
  from assms have a: "?a \<noteq> []" "list_all email_char ?a" and rest: "?rest \<noteq> []"
    and d: "list_all email_char ?d" and dot: "CHR ''.'' \<in> set (butlast (tl ?d))"
    by (simp_all add: email_regex_test_def Let_def)
  from rest have "hd ?rest = CHR ''@''"
    using hd_dropWhile[of "\<lambda>c. c \<noteq> CHR ''@''" s] by auto
  with rest have r: "?rest = CHR ''@'' # ?d" by (cases ?rest) auto
  have s: "s = ?a @ ?rest" by simp
  from dot obtain x y where xy: "butlast (tl ?d) = x @ CHR ''.'' # y"
    by (auto simp: in_set_conv_decomp)
  then have ne: "tl ?d \<noteq> []" by auto
  then have dne: "?d \<noteq> []" by auto
  from ne have tl_eq: "tl ?d = x @ CHR ''.'' # y @ [last (tl ?d)]"
    using xy append_butlast_last_id[of "tl ?d"] by simp
  from dne have d_eq: "?d = (hd ?d # x) @ ''.'' @ (y @ [last (tl ?d)])"
    using tl_eq by (cases ?d) auto
  let ?b = "hd ?d # x"
  let ?c = "y @ [last (tl ?d)]"
  have "list_all email_char (?b @ ''.'' @ ?c)" using d d_eq by metis
  then have "list_all email_char ?b" "list_all email_char ?c" by simp_all
  moreover have "s = ?a @ ''@'' @ ?b @ ''.'' @ ?c"
    using s r d_eq by (metis append_Cons append_Nil)
  ultimately show ?thesis using a by blast
qed

text \<open>
  The matcher computes the language of the literal: a local part, \<^verbatim>\<open>@\<close>, a domain part,
  a dot and a last part, each a non-empty run of characters of the class \<^verbatim>\<open>[^\s@]\<close>.
\<close>

lemma email_regex_test_iff:
  "email_regex_test s \<longleftrightarrow>
     (\<exists>a b c. s = a @ ''@'' @ b @ ''.'' @ c \<and> a \<noteq> [] \<and> b \<noteq> [] \<and> c \<noteq> [] \<and>
        list_all email_char a \<and> list_all email_char b \<and> list_all email_char c)"
  using email_regex_test_intro email_regex_test_elim by blast

text \<open>
  No operation of the engine writes to the initial-values object or lets \<^verbatim>\<open>values\<close>
  point to it.
\<close>

lemma initial_kept_cong:
  "heap t = heap s \<Longrightarrow> next_addr t = next_addr s \<Longrightarrow> values_ref t = values_ref s \<Longrightarrow>
   initial_kept eng c t = initial_kept eng c s"
  by (simp add: initial_kept_def)

lemma kept_write_value:
  "initial_kept eng c s \<Longrightarrow> initial_kept eng c (write_value name v s)"
  by (simp add: initial_kept_def write_value_def)

lemma kept_write_error:
  "initial_kept eng c s \<Longrightarrow> initial_kept eng c (write_error name msgs s)"
  by (simp add: initial_kept_def write_error_def)

lemma kept_write_meta:
  "initial_kept eng c s \<Longrightarrow> initial_kept eng c (write_meta name m s)"
  by (simp add: initial_kept_def write_meta_def)

lemma kept_write_rules:
  "initial_kept eng c s \<Longrightarrow> initial_kept eng c (write_rules name rs s)"
  by (simp add: initial_kept_def write_rules_def)

lemma kept_mark_meta:
  "initial_kept eng c s \<Longrightarrow> initial_kept eng c (mark_meta name t key v upd s)"
  by (simp add: initial_kept_def mark_meta_def write_meta_def split: property.splits)

lemma kept_setFieldValue:
  "initial_kept eng c s \<Longrightarrow> initial_kept eng c (setFieldValue name v s)"
  by (simp add: setFieldValue_def kept_mark_meta kept_write_value)

lemma kept_setValues:
  "initial_kept eng c s \<Longrightarrow> initial_kept eng c (setValues vs s)"
  unfolding setValues_def
  by (induction vs arbitrary: s) (auto simp: kept_setFieldValue)

lemma kept_setFieldError:
  "initial_kept eng c s \<Longrightarrow> initial_kept eng c (setFieldError name msg s)"
  by (simp add: setFieldError_def kept_write_error)

lemma kept_setErrors:
  "initial_kept eng c s \<Longrightarrow> initial_kept eng c (setErrors es s)"
  unfolding setErrors_def
  by (induction es arbitrary: s) (auto simp: kept_setFieldError)

lemma kept_setServerErrors:
  "initial_kept eng c s \<Longrightarrow> initial_kept eng c (setServerErrors ses s)"
  by (simp add: initial_kept_def setServerErrors_def)

lemma kept_setFieldTouched:
  "initial_kept eng c s \<Longrightarrow> initial_kept eng c (setFieldTouched name b s)"
  by (simp add: initial_kept_def setFieldTouched_def write_meta_def split: property.splits)

lemma kept_setTouched:
  "initial_kept eng c s \<Longrightarrow> initial_kept eng c (setTouched bs s)"
  unfolding setTouched_def
  by (induction bs arbitrary: s) (auto simp: kept_setFieldTouched)

lemma kept_getFieldMeta:
  "initial_kept eng c s \<Longrightarrow> initial_kept eng c (snd (getFieldMeta name s))"
  by (simp add: initial_kept_def getFieldMeta_def write_meta_def Let_def split: property.splits)

lemma kept_validateField:
  assumes "initial_kept eng c s"
  shows "initial_kept eng c (snd (validateField ts eng name arg s))"
proof -
  obtain r s' where vf: "validateField ts eng name arg s = (r, s')"
    by (cases "validateField ts eng name arg s")
  define bag where "bag = errorBag s'"
  define w where "w = prototypeWrites s'"
  have "s' = s\<lparr>errorBag := bag, prototypeWrites := w\<rparr>"
    using validateField_frame[OF vf] by (simp add: bag_def w_def)
  then show ?thesis using assms vf by (simp add: initial_kept_def)
qed

lemma kept_validate:
  assumes "initial_kept eng c s"
  shows "initial_kept eng c (snd (validate ts eng s))"
proof -
  obtain r s' where v: "validate ts eng s = (r, s')"
    by (cases "validate ts eng s")
  from validate_preserves[OF v] assms v show ?thesis
    by (simp add: initial_kept_def)
qed

lemma kept_fold_write_error:
  "initial_kept eng c s \<Longrightarrow>
   initial_kept eng c (foldl (\<lambda>s (key, val). write_error key [val] s) s es)"
  by (induction es arbitrary: s) (auto simp: kept_write_error)

lemma kept_fold_write_meta:
  "initial_kept eng c s \<Longrightarrow>
   initial_kept eng c (foldl (\<lambda>s (key, val). write_meta key (new_meta val) s) s tm)"
  by (induction tm arbitrary: s) (auto simp: kept_write_meta)

lemma kept_fold_setFieldTouched:
  "initial_kept eng c s \<Longrightarrow>
   initial_kept eng c (foldl (\<lambda>s (key, val). setFieldTouched key val s) s tm)"
  by (induction tm arbitrary: s) (auto simp: kept_setFieldTouched)

lemma kept_resetForm:
  assumes "initial_kept eng c s"
  shows "initial_kept eng c (resetForm eng state s)"
proof -
  let ?source = "case Option.bind state state_values of
                      Some vs \<Rightarrow> vs
                    | None \<Rightarrow> heap s (initialValues eng)"
  let ?s2 = "(snd (alloc ?source s))\<lparr>values_ref := fst (alloc ?source s)\<rparr>"
  have k2: "initial_kept eng c (?s2\<lparr>errorBag := []\<rparr>)"
    using assms by (auto simp: initial_kept_def alloc_def)
  let ?s3 = "case Option.bind state state_errors of
               Some es \<Rightarrow> foldl (\<lambda>s (key, val). write_error key [val] s) (?s2\<lparr>errorBag := []\<rparr>) es
             | None \<Rightarrow> ?s2\<lparr>errorBag := []\<rparr>"
  have k3: "initial_kept eng c ?s3"
    using k2 by (auto simp: kept_fold_write_error split: option.splits)
  then have k3': "initial_kept eng c (?s3\<lparr>fieldsMeta := []\<rparr>)"
    by (simp add: initial_kept_def)
  let ?s4 = "case Option.bind state state_touched of
               Some tm \<Rightarrow> foldl (\<lambda>s (key, val). write_meta key (new_meta val) s) (?s3\<lparr>fieldsMeta := []\<rparr>) tm
             | None \<Rightarrow> ?s3\<lparr>fieldsMeta := []\<rparr>"
  have k4: "initial_kept eng c ?s4"
    using k3' by (auto simp: kept_fold_write_meta split: option.splits)
  have "resetForm eng state s =
          ?s4\<lparr>isSubmitting := False, isValidating := False,
            submitCount := (case Option.bind state state_submitCount of Some n \<Rightarrow> n | None \<Rightarrow> 0)\<rparr>"
    by (simp add: resetForm_def Let_def case_prod_beta)
  then show ?thesis using k4 by (simp add: initial_kept_def)
qed

lemma kept_register:
  "initial_kept eng c s \<Longrightarrow> initial_kept eng c (register name options s)"
  by (auto simp: register_def Let_def kept_write_value kept_write_rules split: option.splits)

lemma kept_onInput:
  "initial_kept eng c s \<Longrightarrow> initial_kept eng c (onInput ts eng name options v s)"
  by (simp add: onInput_def Let_def kept_setFieldValue kept_validateField)

lemma kept_onBlur:
  "initial_kept eng c s \<Longrightarrow> initial_kept eng c (onBlur ts eng name options s)"
  by (simp add: onBlur_def Let_def kept_validateField kept_mark_meta)

lemma kept_begin_submit:
  "initial_kept eng c s \<Longrightarrow> initial_kept eng c (begin_submit e s)"
  by (simp add: initial_kept_def begin_submit_def Let_def)

lemma kept_handleSubmit:
  assumes k: "initial_kept eng c s"
      and cbs: "\<And>cb u. onValid = Some cb \<or> onSubmit eng = Some cb \<Longrightarrow>
                  initial_kept eng c u \<Longrightarrow> initial_kept eng c (snd (cb u))"
      and inv: "\<And>f bag u. onInvalid = Some f \<Longrightarrow>
                  initial_kept eng c u \<Longrightarrow> initial_kept eng c (snd (f bag u))"
  shows "initial_kept eng c (snd (handleSubmit ts eng onValid onInvalid e s))"
proof -
  obtain r s3 where v: "validate ts eng (begin_submit e s) = (r, s3)"
    by (cases "validate ts eng (begin_submit e s)")
  have k3: "initial_kept eng c s3"
    using kept_validate[OF kept_begin_submit[OF k], of ts e] v by simp
  have flag: "\<And>u x. initial_kept eng c u \<Longrightarrow> initial_kept eng c (u\<lparr>isSubmitting := x\<rparr>)"
    by (simp add: initial_kept_def)
  have log: "\<And>u x l. initial_kept eng c u \<Longrightarrow> initial_kept eng c (u\<lparr>effects := l, isSubmitting := x\<rparr>)"
    by (simp add: initial_kept_def)
  show ?thesis
  proof (cases r)
    case (Inl x)
    with v k3 show ?thesis by (simp add: handleSubmit_def)
  next
    case (Inr res)
    show ?thesis
    proof (cases "valid res")
      case True
      show ?thesis
      proof (cases "case onValid of Some cb \<Rightarrow> Some cb | None \<Rightarrow> onSubmit eng")
        case None
        with v Inr True flag[OF k3] show ?thesis by (simp add: handleSubmit_def)
      next
        case (Some cb)
        then have "onValid = Some cb \<or> onSubmit eng = Some cb"
          by (auto split: option.splits)
        from cbs[OF this k3] have k4: "initial_kept eng c (snd (cb s3))" .
        obtain o4 s4 where c4: "cb s3 = (o4, s4)" by (cases "cb s3")
        with k4 have "initial_kept eng c s4" by simp
        with v Inr True Some c4 flag log show ?thesis
          by (cases o4) (simp_all add: handleSubmit_def)
      qed
    next
      case False
      show ?thesis
      proof (cases onInvalid)
        case None
        with v Inr False flag[OF k3] show ?thesis by (simp add: handleSubmit_def)
      next
        case (Some f)
        from inv[OF this k3] have k4: "initial_kept eng c (snd (f (errorBag s3) s3))" .
        obtain o4 s4 where c4: "f (errorBag s3) s3 = (o4, s4)" by (cases "f (errorBag s3) s3")
        with k4 have "initial_kept eng c s4" by simp
        with v Inr False Some c4 flag show ?thesis
          by (cases o4) (simp_all add: handleSubmit_def)
      qed
    qed
  qed
qed

lemma engine_run_initial_kept:
  "engine_run ts eng s t \<Longrightarrow> initial_kept eng c s \<Longrightarrow> initial_kept eng c t"
proof (induction rule: engine_run.induct)
  case (run_handleSubmit s t onValid onInvalid e)
  then show ?case by (intro kept_handleSubmit) auto
qed (simp_all add: kept_setFieldValue kept_setValues kept_setFieldError kept_setErrors
      kept_setServerErrors kept_setFieldTouched kept_setTouched kept_getFieldMeta
      kept_validateField kept_validate kept_resetForm kept_register kept_onInput kept_onBlur)

lemma validate_snd_simps:
  "heap (snd (validate ts eng s)) = heap s"
  "next_addr (snd (validate ts eng s)) = next_addr s"
  "values_ref (snd (validate ts eng s)) = values_ref s"
proof -
  obtain r s' where v: "validate ts eng s = (r, s')"
    by (cases "validate ts eng s")
  from validate_preserves[OF v] v
  show "heap (snd (validate ts eng s)) = heap s"
    and "next_addr (snd (validate ts eng s)) = next_addr s"
    and "values_ref (snd (validate ts eng s)) = values_ref s"
    by simp_all
qed

lemma kept_seed:
  "initial_kept eng c u \<Longrightarrow>
   initial_kept eng c
     (case sch of
        Some (RulesSchema rs) \<Rightarrow> if b then u\<lparr>fieldRules := rs\<rparr> else u
      | _ \<Rightarrow> u)"
  by (simp add: initial_kept_def split: option.splits schema.splits)

lemma useForm_initial_kept:
  assumes "useForm ts options h n = (eng, s0)"
      and "case opt_initialValues options of Some a \<Rightarrow> a < n | None \<Rightarrow> True"
  shows "initial_kept eng (case opt_initialValues options of Some a \<Rightarrow> h a | None \<Rightarrow> []) s0"
proof -
  let ?c = "case opt_initialValues options of Some a \<Rightarrow> h a | None \<Rightarrow> []"
  let ?w = "\<lparr>heap = h, next_addr = n, values_ref = 0, errorBag = [], fieldsMeta = [],
               isSubmitting = False, isValidating = False, submitCount = 0, fieldRules = [],
               effects = [], prototypeWrites = []\<rparr>"
  let ?p = "case opt_initialValues options of Some a \<Rightarrow> (a, ?w) | None \<Rightarrow> alloc [] ?w"
  let ?init = "fst ?p"
  let ?w1 = "snd ?p"
  let ?eng = "\<lparr>initialValues = ?init, activeSchema = active_schema options,
                 onSubmit = opt_onSubmit options\<rparr>"
  let ?s1 = "(snd (alloc (heap ?w1 ?init) ?w1))\<lparr>values_ref := fst (alloc (heap ?w1 ?init) ?w1)\<rparr>"
  let ?s2 = "foldl (\<lambda>s (key, val). write_error key [val] s) ?s1
                 (case opt_initialErrors options of Some es \<Rightarrow> es | None \<Rightarrow> [])"
  let ?s3 = "foldl (\<lambda>s (key, val). setFieldTouched key val s) ?s2
                 (case opt_initialTouched options of Some tm \<Rightarrow> tm | None \<Rightarrow> [])"
  let ?s4 = "case activeSchema ?eng of
                  Some (RulesSchema rs) \<Rightarrow>
                    if \<not> isZodSchema ?eng \<and> \<not> isYupSchema ?eng then ?s3\<lparr>fieldRules := rs\<rparr> else ?s3
                | _ \<Rightarrow> ?s3"
  define e' where "e' = ?eng"
  define s4 where "s4 = ?s4"
  have unfolded: "useForm ts options h n =
      (if opt_validateOnMount options = Some True
       then (e', snd (validate ts e' s4)) else (e', s4))"
    unfolding e'_def s4_def by (simp add: useForm_def Let_def case_prod_beta)
  have k1: "initial_kept ?eng ?c ?s1"
    using assms(2) by (auto simp: initial_kept_def alloc_def split: option.splits)
  have k3: "initial_kept ?eng ?c ?s3"
    by (intro kept_fold_setFieldTouched kept_fold_write_error k1)
  have "initial_kept ?eng ?c ?s4"
    by (rule kept_seed[OF k3])
  then have k4: "initial_kept e' ?c s4"
    unfolding e'_def s4_def .
  show ?thesis
  proof (cases "opt_validateOnMount options = Some True")
    case True
    with assms(1) unfolded have "eng = e'" "s0 = snd (validate ts e' s4)" by auto
    then show ?thesis using kept_validate[OF k4, of ts] by simp
  next
    case False
    with assms(1) unfolded have "eng = e'" "s0 = s4" by auto
    then show ?thesis using k4 by simp
  qed
qed

section \<open>Results: the \<^verbatim>\<open>isSubmitting\<close> flag of a submission\<close>

text \<open>
  Whenever the handler's promise resolves, the flag is down: this covers a successful
  submission, a failing \<^verbatim>\<open>onValid\<close>/\<^verbatim>\<open>onSubmit\<close> and an invalid form.
\<close>

lemma handleSubmit_resolved_clears_isSubmitting:
  assumes "handleSubmit ts eng onValid onInvalid e s = (Inr u, s')"
  shows "isSubmitting s' = False"
  using assms
  by (auto simp: handleSubmit_def split: prod.splits sum.splits option.splits if_splits)

text \<open>The handler is rejected exactly by a rejected validation or a throwing \<^verbatim>\<open>onInvalid\<close>.\<close>

lemma handleSubmit_rejected_cases:
  assumes "handleSubmit ts eng onValid onInvalid e s = (Inl x, s')"
  shows "validate ts eng (begin_submit e s) = (Inl x, s') \<or>
         (\<exists>r s3 f. validate ts eng (begin_submit e s) = (Inr r, s3) \<and> \<not> valid r \<and>
            onInvalid = Some f \<and> f (errorBag s3) s3 = (Inl x, s'))"
  using assms
  by (auto simp: handleSubmit_def split: prod.splits sum.splits option.splits if_splits)

text \<open>
  C1. Claimed: \<^verbatim>\<open>isSubmitting\<close> is false when an invocation of the handler of
  \<^verbatim>\<open>handleSubmit\<close> (or of \<^verbatim>\<open>submitForm\<close>) completes, on every path, also when validation
  rejects with an exception. The code sets the flag back in the handler's last
  statement, and nothing but the submission callback is guarded: on a form whose only
  rule is a custom rule with a throwing predicate, \<^verbatim>\<open>validate()\<close> rejects, the handler
  is rejected with the same value and \<^verbatim>\<open>isSubmitting\<close> stays true.
\<close>

theorem handleSubmit_rejected_validation_keeps_isSubmitting:
  "fst (handleSubmit ts (fst throwing_rule_form) None None False (snd throwing_rule_form))
     = Inl (TypeError ''boom'') \<and>
   isSubmitting
     (snd (handleSubmit ts (fst throwing_rule_form) None None False (snd throwing_rule_form))) \<and>
   fst (submitForm ts (fst throwing_rule_form) False (snd throwing_rule_form))
     = Inl (TypeError ''boom'') \<and>
   isSubmitting (snd (submitForm ts (fst throwing_rule_form) False (snd throwing_rule_form)))"
  by (simp add: submitForm_def handleSubmit_def begin_submit_def validate_def validateField_def
      validate_with_rules_def rule_fails_def throwing_rule_form_def throwing_rule_def fixture_defs
      isZodSchema_def isYupSchema_def object_prototype_names_def)

section \<open>Results: registration\<close>

text \<open>What \<^verbatim>\<open>register\<close> does to the stored value: it depends on truthiness only.\<close>

lemma register_value:
  "lookup (values_value (register name options s)) name =
     (if truthy (lookup (values_value s) name) then lookup (values_value s) name else VStr [])"
proof (cases "truthy (lookup (values_value s) name)")
  case True
  then show ?thesis
    by (simp add: register_def write_rules_def values_value_def Let_def split: option.splits)
next
  case False
  then have "\<not> sets_prototype (values_value s) name"
    using proto_name_inherited
    by (auto simp: sets_prototype_def lookup_def property_def split: option.splits)
  with False show ?thesis
    by (auto simp: register_def write_rules_def write_value_def values_value_def lookup_def
        property_def update_conv' Let_def split: option.splits if_splits)
qed

text \<open>
  C2. Claimed: \<^verbatim>\<open>register\<close> sets \<^verbatim>\<open>values[name]\<close> to the empty string if and only if
  the field has no current value, and leaves every present value alone, 0 and
  \<^verbatim>\<open>false\<close> included. The code tests \<^verbatim>\<open>!values[name]\<close>: on a form constructed with
  \<^verbatim>\<open>{ age: 0, agree: false }\<close>, registering either field replaces its value by the
  empty string.
\<close>

theorem register_overwrites_falsy_value:
  "lookup (values_value (snd falsy_values_form)) ''age'' = VNum (Finite 0) \<and>
   lookup (values_value (register ''age'' None (snd falsy_values_form))) ''age'' = VStr [] \<and>
   lookup (values_value (snd falsy_values_form)) ''agree'' = VBool False \<and>
   lookup (values_value (register ''agree'' None (snd falsy_values_form))) ''agree'' = VStr []"
  by (simp add: register_def falsy_values_form_def fixture_defs write_value_def sets_prototype_def)

section \<open>Results: single-field validation\<close>

text \<open>
  Variant A of the claim below holds: a Zod failure that is an object without an issues
  list clears the field.
\<close>

lemma validateField_zod_unrecognised_failure:
  assumes "activeSchema eng = Some (ZodSchema parseAsync)"
      and "parseAsync (values_value s) = Some (ErrorObj err)"
      and "issues_of err = None"
  shows "validateField ts eng name arg s =
           (Inr \<lparr>valid = True, errors = []\<rparr>, s\<lparr>errorBag := AList.delete name (errorBag s)\<rparr>)"
  using assms by (simp add: validateField_def Let_def isZodSchema_def)

text \<open>
  C3. Claimed: when an external schema's failure does not match the adapter contract
  (variant A: no issues list; variant B: no message), \<^verbatim>\<open>validateField(name)\<close> returns
  \<^verbatim>\<open>{valid: true, errors: []}\<close> and removes the field's entry from the ErrorBag. For
  variant B the \<^verbatim>\<open>catch\<close> block has no branch for a failure without message and control
  falls into the rules section. On a Yup form whose \<^verbatim>\<open>validateAt\<close> rejects with
  \<^verbatim>\<open>new Error()\<close>: with no rules for the field the call answers valid and the entry
  \<^verbatim>\<open>'Name is taken'\<close> stays; with a rules argument whose \<^verbatim>\<open>required\<close> rule fails the call
  answers invalid.
\<close>

theorem validateField_yup_no_message_keeps_entry:
  "fst (validateField ts (fst yup_no_message_form) ''name'' None (snd yup_no_message_form))
     = Inr \<lparr>valid = True, errors = []\<rparr> \<and>
   getFieldError ''name''
     (snd (validateField ts (fst yup_no_message_form) ''name'' None (snd yup_no_message_form)))
     = Some ''Name is taken'' \<and>
   fst (validateField ts (fst yup_no_message_form) ''email''
          (Some [required_rule\<lparr>message := ''Email required''\<rparr>]) (snd yup_no_message_form))
     = Inr \<lparr>valid = False, errors = [''Email required'']\<rparr>"
  by (simp add: validateField_def validate_with_rules_def getFieldError_def first_message_def
      rule_fails_def required_rule_def yup_no_message_form_def no_message_error_def fixture_defs
      isZodSchema_def isYupSchema_def write_error_def sets_prototype_def object_prototype_names_def)


text \<open>
  At a name that the field rules inherit from \<^verbatim>\<open>Object.prototype\<close>, and without a rules
  argument, \<^verbatim>\<open>rules || fieldRules.value[name]\<close> is the inherited member: with no
  external schema the call is rejected with the TypeError of the \<^verbatim>\<open>for ... of\<close>.
\<close>

lemma validateField_inherited_name_rejected:
  assumes "map_of (fieldRules s) name = None" and "name \<in> set object_prototype_names"
      and "\<not> isZodSchema eng" and "\<not> isYupSchema eng"
  shows "validateField ts eng name None s = (Inl (TypeError ''rules is not iterable''), s)"
  using assms by (simp add: validateField_def validate_with_rules_def property_def Let_def)



section \<open>Results: rules-based validation of one value\<close>

text \<open>
  C5. \<^verbatim>\<open>validateValue\<close> evaluates the rules in list order and stops at the first
  failure. If every rule before \<open>r\<close> passes and \<open>r\<close> fails, the result is the message of
  \<open>r\<close> whatever the rules after it are (they may even throw: they are not evaluated).
  The result is no error exactly when every rule passes, and every message returned is
  that of the first failing rule. For \<^verbatim>\<open>[required, minLength(3)]\<close> and the value \<^verbatim>\<open>""\<close>
  the result is the message of \<^verbatim>\<open>required\<close>.
\<close>

theorem validateValue_first_failure_wins:
  "(list_all (\<lambda>p. rule_fails ts v p = Inr False) pre \<and> rule_fails ts v r = Inr True \<longrightarrow>
      validateValue ts v (pre @ r # post) = Inr (Some (message r))) \<and>
   (validateValue ts v rs = Inr None \<longleftrightarrow> list_all (\<lambda>p. rule_fails ts v p = Inr False) rs) \<and>
   (validateValue ts v rs = Inr (Some m) \<longrightarrow>
      (\<exists>pre r post. rs = pre @ r # post \<and> list_all (\<lambda>p. rule_fails ts v p = Inr False) pre \<and>
         rule_fails ts v r = Inr True \<and> m = message r)) \<and>
   validateValue ts (VStr [])
      [\<lparr>rule_type = Required, rule_value = NoValue, message = required_message\<rparr>,
       \<lparr>rule_type = MinLength, rule_value = NumValue (Finite 3), message = minLength_message\<rparr>]
     = Inr (Some required_message)"
proof (intro conjI impI)
  assume "list_all (\<lambda>p. rule_fails ts v p = Inr False) pre \<and> rule_fails ts v r = Inr True"
  then show "validateValue ts v (pre @ r # post) = Inr (Some (message r))"
    by (simp add: validateValue_append_pass)
next
  show "validateValue ts v rs = Inr None \<longleftrightarrow> list_all (\<lambda>p. rule_fails ts v p = Inr False) rs"
    by (rule validateValue_None_iff)
next
  assume "validateValue ts v rs = Inr (Some m)"
  then show "\<exists>pre r post. rs = pre @ r # post \<and> list_all (\<lambda>p. rule_fails ts v p = Inr False) pre \<and>
         rule_fails ts v r = Inr True \<and> m = message r"
    by (rule validateValue_Some_split)
next
  show "validateValue ts (VStr [])
      [\<lparr>rule_type = Required, rule_value = NoValue, message = required_message\<rparr>,
       \<lparr>rule_type = MinLength, rule_value = NumValue (Finite 3), message = minLength_message\<rparr>]
     = Inr (Some required_message)"
    by (simp add: rule_fails_def)
qed

text \<open>
  On \<^verbatim>\<open>"ab"\<close> the rule \<^verbatim>\<open>required\<close> passes, \<^verbatim>\<open>minLength(3)\<close> fails, and the throwing
  rule behind it is never reached.
\<close>

theorem validateValue_first_failure_wins_witness:
  "validateValue object_string (VStr ''ab'')
     [required_rule,
      \<lparr>rule_type = MinLength, rule_value = NumValue (Finite 3), message = ''Min 3 characters''\<rparr>,
      throwing_rule]
   = Inr (Some ''Min 3 characters'')"
  using validateValue_first_failure_wins
    [of object_string "VStr ''ab''" "[required_rule]"
        "\<lparr>rule_type = MinLength, rule_value = NumValue (Finite 3),
          message = ''Min 3 characters''\<rparr>"
        "[throwing_rule]"]
  by (simp add: rule_fails_def required_rule_def)

section \<open>Results: reset\<close>

text \<open>
  C6, as claimed: \<^verbatim>\<open>resetForm()\<close> leaves \<^verbatim>\<open>values\<close> equal to the construction-time
  initial values. The engine keeps the caller's \<^verbatim>\<open>initialValues\<close> object itself, not a
  copy of it, and reads it when \<^verbatim>\<open>resetForm\<close> runs: on a form constructed with
  \<^verbatim>\<open>initial = { name: 'John' }\<close>, after the caller's \<^verbatim>\<open>initial.name = 'Jane'\<close> the call
  \<^verbatim>\<open>resetForm()\<close> leaves \<^verbatim>\<open>values.name\<close> to be \<^verbatim>\<open>'Jane'\<close>.
\<close>

theorem resetForm_reads_initial_object_at_call:
  "values_value (snd plain_form) = [(''name'', VStr ''John'')] \<and>
   heap (snd plain_form) (initialValues (fst plain_form)) = [(''name'', VStr ''John'')] \<and>
   values_value
     (resetForm (fst plain_form) None
        ((snd plain_form)
           \<lparr>heap := (heap (snd plain_form))
              (initialValues (fst plain_form) := [(''name'', VStr ''Jane'')])\<rparr>))
     = [(''name'', VStr ''Jane'')]"
  by (simp add: resetForm_def plain_form_def fixture_defs)

text \<open>
  C6, amended. In every state in which the caller's \<^verbatim>\<open>initialValues\<close> object is part of
  the store, \<^verbatim>\<open>resetForm()\<close> with no argument leaves \<^verbatim>\<open>values\<close> pointing to a new
  object, other than the initial-values object, whose properties are those the
  initial-values object has when \<^verbatim>\<open>resetForm\<close> runs; the initial-values object is not
  written to; the ErrorBag and the FieldMeta map are empty, \<^verbatim>\<open>submitCount\<close> is 0,
  \<^verbatim>\<open>isSubmitting\<close> and \<^verbatim>\<open>isValidating\<close> are false.
\<close>

theorem resetForm_without_argument:
  assumes "initialValues eng < next_addr s"
  shows "values_value (resetForm eng None s) = heap s (initialValues eng) \<and>
         values_ref (resetForm eng None s) \<noteq> initialValues eng \<and>
         values_ref (resetForm eng None s) = next_addr s \<and>
         heap (resetForm eng None s) (initialValues eng) = heap s (initialValues eng) \<and>
         errorBag (resetForm eng None s) = [] \<and>
         fieldsMeta (resetForm eng None s) = [] \<and>
         submitCount (resetForm eng None s) = 0 \<and>
         isSubmitting (resetForm eng None s) = False \<and>
         isValidating (resetForm eng None s) = False"
  using assms by (simp add: resetForm_def alloc_def values_value_def Let_def)

text \<open>
  The test ``should reset form to initial values'': after \<^verbatim>\<open>setFieldValue('name', 'Jane')\<close>
  and \<^verbatim>\<open>setFieldError('name', 'Error')\<close>, \<^verbatim>\<open>resetForm()\<close> gives back \<^verbatim>\<open>{ name: 'John' }\<close>.
\<close>

theorem resetForm_without_argument_witness:
  "values_value (setFieldError ''name'' ''Error''
                  (setFieldValue ''name'' (VStr ''Jane'') (snd plain_form)))
     = [(''name'', VStr ''Jane'')] \<and>
   errorBag (setFieldError ''name'' ''Error''
                  (setFieldValue ''name'' (VStr ''Jane'') (snd plain_form)))
     = [(''name'', [''Error''])] \<and>
   values_value (resetForm (fst plain_form) None
                  (setFieldError ''name'' ''Error''
                     (setFieldValue ''name'' (VStr ''Jane'') (snd plain_form))))
     = [(''name'', VStr ''John'')] \<and>
   values_ref (resetForm (fst plain_form) None
                  (setFieldError ''name'' ''Error''
                     (setFieldValue ''name'' (VStr ''Jane'') (snd plain_form))))
     \<noteq> initialValues (fst plain_form) \<and>
   errorBag (resetForm (fst plain_form) None
                  (setFieldError ''name'' ''Error''
                     (setFieldValue ''name'' (VStr ''Jane'') (snd plain_form))))
     = []"
proof -
  let ?s = "setFieldError ''name'' ''Error''
              (setFieldValue ''name'' (VStr ''Jane'') (snd plain_form))"
  have before: "initialValues (fst plain_form) < next_addr ?s"
    "heap ?s (initialValues (fst plain_form)) = [(''name'', VStr ''John'')]"
    "values_value ?s = [(''name'', VStr ''Jane'')]"
    "errorBag ?s = [(''name'', [''Error''])]"
    by (simp_all add: setFieldError_def setFieldValue_def mark_meta_def write_value_def
        write_meta_def write_error_def sets_prototype_def object_prototype_names_def
        plain_form_def fixture_defs)
  from resetForm_without_argument[OF before(1)] before(2-4) show ?thesis by simp
qed

text \<open>
  As long as only the operations of the engine have run since construction, the
  initial-values object has its construction-time properties, and these are what
  \<^verbatim>\<open>resetForm()\<close> restores.
\<close>

lemma resetForm_after_engine_run:
  assumes "useForm ts options h n = (eng, s0)"
      and "case opt_initialValues options of Some a \<Rightarrow> a < n | None \<Rightarrow> True"
      and "engine_run ts eng s0 s"
  shows "values_value (resetForm eng None s) =
           (case opt_initialValues options of Some a \<Rightarrow> h a | None \<Rightarrow> [])"
proof -
  let ?c = "case opt_initialValues options of Some a \<Rightarrow> h a | None \<Rightarrow> []"
  have "initial_kept eng ?c s0"
    using useForm_initial_kept[OF assms(1,2)] .
  then have "initial_kept eng ?c s"
    using engine_run_initial_kept[OF assms(3)] by simp
  then show ?thesis
    by (simp add: initial_kept_def resetForm_def alloc_def values_value_def Let_def)
qed

section \<open>Results: whole-form validation with rules\<close>




section \<open>Results: a failing submission callback\<close>

text \<open>
  C8. On a form whose validation succeeds, when the callback that is invoked
  (\<^verbatim>\<open>onValid\<close> if given, else the engine's \<^verbatim>\<open>onSubmit\<close>) fails with \<open>x\<close>: the handler's
  promise resolves; the failure is logged with \<^verbatim>\<open>console.error\<close>; the final state is the
  state the callback left, but for the log entry and \<^verbatim>\<open>isSubmitting = false\<close>, so
  \<^verbatim>\<open>submitCount\<close> and the values are what they were when the callback failed; and the
  callback was entered with the incremented \<^verbatim>\<open>submitCount\<close> and the values unchanged.
\<close>

theorem handleSubmit_callback_failure_is_caught:
  assumes "validate ts eng (begin_submit e s) = (Inr r, s3)"
      and "valid r"
      and "(case onValid of Some cb \<Rightarrow> Some cb | None \<Rightarrow> onSubmit eng) = Some cb"
      and "cb s3 = (Inl x, s4)"
  shows "handleSubmit ts eng onValid onInvalid e s =
           (Inr (), s4\<lparr>effects := effects s4 @ [ConsoleError x], isSubmitting := False\<rparr>) \<and>
         isSubmitting (snd (handleSubmit ts eng onValid onInvalid e s)) = False \<and>
         submitCount (snd (handleSubmit ts eng onValid onInvalid e s)) = submitCount s4 \<and>
         values_value (snd (handleSubmit ts eng onValid onInvalid e s)) = values_value s4 \<and>
         submitCount s3 = submitCount s + 1 \<and>
         values_value s3 = values_value s"
proof -
  have "submitCount s3 = submitCount (begin_submit e s)"
    and "values_value s3 = values_value (begin_submit e s)"
    using validate_preserves[OF assms(1)] by (simp_all add: values_value_def)
  then have pre: "submitCount s3 = submitCount s + 1" "values_value s3 = values_value s"
    by (simp_all add: begin_submit_def Let_def values_value_def)
  have "handleSubmit ts eng onValid onInvalid e s =
           (Inr (), s4\<lparr>effects := effects s4 @ [ConsoleError x], isSubmitting := False\<rparr>)"
    using assms by (simp add: handleSubmit_def)
  with pre show ?thesis by (simp add: values_value_def)
qed

text \<open>
  The test ``should handle submission errors gracefully'': \<^verbatim>\<open>onSubmit\<close> rejects, the
  handler resolves, the error is logged, \<^verbatim>\<open>submitCount\<close> is 1 and \<^verbatim>\<open>isSubmitting\<close> false.
\<close>

theorem handleSubmit_callback_failure_is_caught_witness:
  "fst (handleSubmit object_string (fst rejecting_onSubmit_form) None None False
          (snd rejecting_onSubmit_form)) = Inr () \<and>
   isSubmitting (snd (handleSubmit object_string (fst rejecting_onSubmit_form) None None False
          (snd rejecting_onSubmit_form))) = False \<and>
   submitCount (snd (handleSubmit object_string (fst rejecting_onSubmit_form) None None False
          (snd rejecting_onSubmit_form))) = 1 \<and>
   effects (snd (handleSubmit object_string (fst rejecting_onSubmit_form) None None False
          (snd rejecting_onSubmit_form))) = [ConsoleError submission_error] \<and>
   values_value (snd (handleSubmit object_string (fst rejecting_onSubmit_form) None None False
          (snd rejecting_onSubmit_form))) = [(''name'', VStr ''John'')]"
proof -
  let ?eng = "fst rejecting_onSubmit_form"
  let ?s = "snd rejecting_onSubmit_form"
  let ?s3 = "snd (validate object_string ?eng (begin_submit False ?s))"
  let ?cb = "\<lambda>s::form_state. (Inl submission_error :: thrown + unit, s)"
  have v: "validate object_string ?eng (begin_submit False ?s) = (Inr \<lparr>valid = True, errors = []\<rparr>, ?s3)"
    by (simp add: validate_def begin_submit_def simpleErrors_def rejecting_onSubmit_form_def
        fixture_defs isZodSchema_def isYupSchema_def)
  have ok: "valid \<lparr>valid = True, errors = ([] :: string option obj)\<rparr>" by simp
  have cb: "(case None of Some cb \<Rightarrow> Some cb | None \<Rightarrow> onSubmit ?eng) = Some ?cb"
    by (simp add: rejecting_onSubmit_form_def fixture_defs)
  have fails: "?cb ?s3 = (Inl submission_error, ?s3)" by simp
  from handleSubmit_callback_failure_is_caught[OF v ok cb fails, of None] show ?thesis
    by (simp add: validate_def begin_submit_def simpleErrors_def rejecting_onSubmit_form_def
        fixture_defs isZodSchema_def isYupSchema_def)
qed

section \<open>Results: setting a field value\<close>




section \<open>Results: which schema is active\<close>

text \<open>
  C10. When \<^verbatim>\<open>validationSchema\<close> is supplied it is the active schema of the engine
  \<^verbatim>\<open>useForm\<close> builds, and the engine and its state are the same whatever the \<^verbatim>\<open>schema\<close>
  option holds; \<^verbatim>\<open>schema\<close> is the active schema only when \<^verbatim>\<open>validationSchema\<close> is
  absent.
\<close>

theorem validationSchema_takes_precedence:
  "(opt_validationSchema options = Some a \<longrightarrow>
      activeSchema (fst (useForm ts options h n)) = Some a \<and>
      useForm ts options h n = useForm ts (options\<lparr>opt_schema := other\<rparr>) h n) \<and>
   (opt_validationSchema options = None \<longrightarrow>
      activeSchema (fst (useForm ts options h n)) = opt_schema options)"
  by (simp add: useForm_def active_schema_def Let_def isZodSchema_def isYupSchema_def
      split: prod.splits option.splits)

text \<open>
  With \<^verbatim>\<open>validationSchema: { name: [required_rule] }\<close> and \<^verbatim>\<open>schema: {}\<close> the rules in
  force are those of \<^verbatim>\<open>validationSchema\<close>.
\<close>

theorem validationSchema_takes_precedence_witness:
  "opt_validationSchema both_schemas_options = Some (RulesSchema [(''name'', [required_rule])]) \<and>
   opt_schema both_schemas_options = Some (RulesSchema []) \<and>
   activeSchema (fst (useForm object_string both_schemas_options (\<lambda>_. []) 1))
     = Some (RulesSchema [(''name'', [required_rule])]) \<and>
   fieldRules (snd (useForm object_string both_schemas_options (\<lambda>_. []) 1))
     = [(''name'', [required_rule])]"
proof -
  have given: "opt_validationSchema both_schemas_options
                 = Some (RulesSchema [(''name'', [required_rule])])"
    by (simp add: both_schemas_options_def default_options_def)
  from validationSchema_takes_precedence
         [of both_schemas_options "RulesSchema [(''name'', [required_rule])]"
             object_string "\<lambda>_. []" 1 None]
       given
  have "activeSchema (fst (useForm object_string both_schemas_options (\<lambda>_. []) 1))
          = Some (RulesSchema [(''name'', [required_rule])])"
    by blast
  then show ?thesis
    by (simp add: both_schemas_options_def default_options_def useForm_def active_schema_def
        alloc_def Let_def isZodSchema_def isYupSchema_def has_property_def property_def
        object_prototype_names_def)
qed

end
